theory Spec2Isabelle
  imports Main
begin

text \<open>
  The OVN service driver of networking-bgpvpn: the helper of \<^verbatim>\<open>helper.py\<close>, a single worker
  thread that takes requests from a queue and writes BGPVPN annotations to the logical
  switch ports of the OVN northbound database, and the driver of \<^verbatim>\<open>ovn.py\<close>, which checks
  BGPVPNs before they are committed and turns association and router events into requests.
\<close>

section \<open>Python values\<close>

text \<open>
  The driver and its helper pass around plain Python data: \<^verbatim>\<open>None\<close>, booleans,
  integers, strings, lists and dicts with string keys. A dict is an association list in
  insertion order, with distinct keys, read with \<^const>\<open>map_of\<close>.
\<close>

datatype pyval =
    PNone
  | PBool bool
  | PInt int
  | PStr string
  | PList "pyval list"
  | PDict "(string \<times> pyval) list"

text \<open>
  Exceptions are values. The first four are Python's own, \<open>RowNotFound\<close> and
  \<open>TransactionError\<close> are raised by the northbound store, the remaining six are the
  \<^verbatim>\<open>bgpvpn_ext\<close> exceptions of the precommit checks; each of those carries the driver name,
  the last one also the offending type.
\<close>

datatype error =
    KeyError string
  | TypeError string
  | AttributeError string
  | RowNotFound string
  | TransactionError string
  | BGPVPNRDNotSupported string
  | BGPVPNRTNotSupported string
  | BGPVPNITNotSupported string
  | BGPVPNETNotSupported string
  | BGPVPNLocalPrefNotSupported string
  | BGPVPNTypeNotSupported string pyval

text \<open>Sequencing of a computation that may raise: the first exception wins.\<close>

definition and_then :: "error + 'a \<Rightarrow> ('a \<Rightarrow> error + 'b) \<Rightarrow> error + 'b" where
  "and_then m f = (case m of Inl e \<Rightarrow> Inl e | Inr x \<Rightarrow> f x)"

text \<open>Truth value of an object, as \<^verbatim>\<open>if x:\<close> tests it.\<close>

fun truthy :: "pyval \<Rightarrow> bool" where
  "truthy PNone = False"
| "truthy (PBool b) = b"
| "truthy (PInt i) = (i \<noteq> 0)"
| "truthy (PStr s) = (s \<noteq> [])"
| "truthy (PList xs) = (xs \<noteq> [])"
| "truthy (PDict d) = (d \<noteq> [])"

text \<open>\<^verbatim>\<open>x[k]\<close> with a string key \<open>k\<close>: only a dict can be subscripted with a string.\<close>

fun py_getitem :: "pyval \<Rightarrow> string \<Rightarrow> error + pyval" where
  "py_getitem (PDict d) k = (case map_of d k of None \<Rightarrow> Inl (KeyError k) | Some v \<Rightarrow> Inr v)"
| "py_getitem (PList xs) k = Inl (TypeError ''list indices must be integers or slices, not str'')"
| "py_getitem (PStr s) k = Inl (TypeError ''string indices must be integers'')"
| "py_getitem v k = Inl (TypeError ''object is not subscriptable'')"

text \<open>\<^verbatim>\<open>x.get(k)\<close> and \<^verbatim>\<open>x.get(k, None)\<close>: only a dict has the method.\<close>

fun py_get :: "pyval \<Rightarrow> string \<Rightarrow> error + pyval" where
  "py_get (PDict d) k = (case map_of d k of None \<Rightarrow> Inr PNone | Some v \<Rightarrow> Inr v)"
| "py_get v k = Inl (AttributeError ''get'')"

subsection \<open>The builtin str\<close>

definition digit_char :: "nat \<Rightarrow> char" where
  "digit_char d = ''0123456789'' ! d"

function str_nat :: "nat \<Rightarrow> string" where
  "str_nat n = (if n < 10 then [digit_char n] else str_nat (n div 10) @ [digit_char (n mod 10)])"
  by pat_completeness auto
termination
  by (relation "measure id") auto

definition str_int :: "int \<Rightarrow> string" where
  "str_int i = (if i < 0 then CHR ''-'' # str_nat (nat (- i)) else str_nat (nat i))"

definition hex_char :: "nat \<Rightarrow> char" where
  "hex_char d = ''0123456789abcdef'' ! d"

text \<open>
  \<^verbatim>\<open>repr\<close> of a string: single quotes unless the string holds a single quote and no
  double quote; the quote in use and the backslash are escaped, tab, newline and carriage
  return get their letter, every other character that is not printable is written
  \<^verbatim>\<open>\xNN\<close>. Characters are read as code points below 256.
\<close>

definition printable :: "char \<Rightarrow> bool" where
  "printable c = (let n = (of_char c :: nat) in
     (32 \<le> n \<and> n < 127) \<or> (161 \<le> n \<and> n \<noteq> 173))"

definition escape_char :: "char \<Rightarrow> char \<Rightarrow> string" where
  "escape_char q c =
     (if c = q \<or> c = CHR 0x5C then [CHR 0x5C, c]
      else if c = CHR 0x09 then [CHR 0x5C, CHR ''t'']
      else if c = CHR 0x0A then [CHR 0x5C, CHR ''n'']
      else if c = CHR 0x0D then [CHR 0x5C, CHR ''r'']
      else if printable c then [c]
      else [CHR 0x5C, CHR ''x'', hex_char ((of_char c :: nat) div 16),
            hex_char ((of_char c :: nat) mod 16)])"

definition repr_str :: "string \<Rightarrow> string" where
  "repr_str s =
     (let q = (if CHR 0x27 \<in> set s \<and> CHR 0x22 \<notin> set s then CHR 0x22 else CHR 0x27)
      in q # concat (map (escape_char q) s) @ [q])"

fun join_comma :: "string list \<Rightarrow> string" where
  "join_comma [] = []"
| "join_comma [x] = x"
| "join_comma (x # y # ys) = x @ '', '' @ join_comma (y # ys)"

primrec py_repr :: "pyval \<Rightarrow> string" where
  "py_repr PNone = ''None''"
| "py_repr (PBool b) = (if b then ''True'' else ''False'')"
| "py_repr (PInt i) = str_int i"
| "py_repr (PStr s) = repr_str s"
| "py_repr (PList xs) = ''['' @ join_comma (map py_repr xs) @ '']''"
| "py_repr (PDict d) =
     ''{'' @ join_comma (map (\<lambda>(k, r). repr_str k @ '': '' @ r) (map (map_prod id py_repr) d))
       @ ''}''"

definition py_str :: "pyval \<Rightarrow> string" where
  "py_str v = (case v of PStr s \<Rightarrow> s | _ \<Rightarrow> py_repr v)"

section \<open>constants.py\<close>

definition OVN_SUPPORTED_BGPVPN_TYPES :: "pyval list" where
  "OVN_SUPPORTED_BGPVPN_TYPES = [PStr ''l3'']"

definition REQ_TYPE_EXIT :: string where
  "REQ_TYPE_EXIT = ''exit''"

definition REQ_TYPE_CREATE_ROUTER_ASSOC :: string where
  "REQ_TYPE_CREATE_ROUTER_ASSOC = ''create_router_assoc''"

definition REQ_TYPE_DELETE_ROUTER_ASSOC :: string where
  "REQ_TYPE_DELETE_ROUTER_ASSOC = ''delete_router_assoc''"

definition REQ_TYPE_ADD_ROUTER_INTERFACE :: string where
  "REQ_TYPE_ADD_ROUTER_INTERFACE = ''add_router_interface''"

definition OVN_EVPN_VNI_EXT_ID_KEY :: string where
  "OVN_EVPN_VNI_EXT_ID_KEY = ''neutron_bgpvpn:vni''"

definition OVN_EVPN_AS_EXT_ID_KEY :: string where
  "OVN_EVPN_AS_EXT_ID_KEY = ''neutron_bgpvpn:as''"

definition OVN_DRIVER_NAME :: string where
  "OVN_DRIVER_NAME = ''ovn''"

section \<open>The northbound store\<close>

text \<open>
  The helper reaches the northbound database through the API object that
  \<^verbatim>\<open>impl_idl_ovn.OvnNbIdlForBgpVpn().start()\<close> returns. That module and the OVSDB client
  under it are not among the modules embedded here; what the helper uses of them is
  modelled from the specification's outbound interface: a point lookup of a port record by
  name, a set command that merges keys into the \<^verbatim>\<open>external_ids\<close> map of a record, a remove
  command that deletes one key of that map, and a transaction that applies a batch of
  commands all or nothing.
\<close>

text \<open>
  Modelled from the spec: the record of a logical switch port, of which the helper reads
  the uuid and writes the \<^verbatim>\<open>external_ids\<close>, "a small mapping of string key to string value
  attached to a logical port record"; \<open>name\<close> is the port name the lookup goes by.
\<close>

record lsp =
  uuid :: string
  name :: string
  external_ids :: "string \<rightharpoonup> string"

type_synonym nbdb = "lsp list"

text \<open>
  Modelled from the spec: the two commands the helper builds, with their arguments in the
  order of the calls: \<^verbatim>\<open>db_set(table, record, (column, values))\<close> and
  \<^verbatim>\<open>db_remove(table, record, column, key)\<close>.
\<close>

datatype command =
    Db_set string string string "string \<rightharpoonup> string"
  | Db_remove string string string string

text \<open>
  Modelled from the spec: \<^verbatim>\<open>lsp_get(port).execute(check_error=True)\<close>,
  "getPortRecord(portName) -> PortRecordHandle". The lookup raises when no record has the
  name.
\<close>

fun lsp_get :: "nbdb \<Rightarrow> pyval \<Rightarrow> error + lsp" where
  "lsp_get nb (PStr p) =
     (case find (\<lambda>r. name r = p) nb of None \<Rightarrow> Inl (RowNotFound p) | Some r \<Rightarrow> Inr r)"
| "lsp_get nb v = Inl (RowNotFound (py_str v))"

text \<open>
  Modelled from the spec: the effect of \<^verbatim>\<open>db_set\<close> on one record, "setField(recordType,
  handle, field=external_ids, value) merges the two annotation keys into the existing map
  rather than replacing it wholesale".
\<close>

definition set_external_ids :: "string \<Rightarrow> (string \<rightharpoonup> string) \<Rightarrow> lsp \<Rightarrow> lsp" where
  "set_external_ids u e r = (if uuid r = u then r\<lparr>external_ids := external_ids r ++ e\<rparr> else r)"

text \<open>
  Modelled from the spec: the effect of \<^verbatim>\<open>db_remove\<close> on one record, "removeField(recordType,
  handle, field=external_ids, key) removes a single key, leaving other keys untouched";
  "removing an absent key is not an error".
\<close>

definition remove_external_id :: "string \<Rightarrow> string \<Rightarrow> lsp \<Rightarrow> lsp" where
  "remove_external_id u k r =
     (if uuid r = u then r\<lparr>external_ids := (external_ids r)(k := None)\<rparr> else r)"

text \<open>
  Modelled from the spec: one command run against the store. The store holds the one
  table and the one map column the helper writes; a command on another table or column,
  or on a record that does not exist, is rejected.
\<close>

fun run_command :: "command \<Rightarrow> nbdb \<Rightarrow> error + nbdb" where
  "run_command (Db_set t u c e) nb =
     (if t \<noteq> ''Logical_Switch_Port'' \<or> c \<noteq> ''external_ids'' then Inl (TransactionError t)
      else if u \<notin> set (map uuid nb) then Inl (RowNotFound u)
      else Inr (map (set_external_ids u e) nb))"
| "run_command (Db_remove t u c k) nb =
     (if t \<noteq> ''Logical_Switch_Port'' \<or> c \<noteq> ''external_ids'' then Inl (TransactionError t)
      else if u \<notin> set (map uuid nb) then Inl (RowNotFound u)
      else Inr (map (remove_external_id u k) nb))"

text \<open>
  Modelled from the spec: \<^verbatim>\<open>transaction(check_error=True)\<close>. "All such commands for one
  logical operation are submitted as a single atomic transaction; the store reports
  success/failure per transaction": the commands run in order on a working copy, and one
  failure leaves nothing but the error.
\<close>

fun transaction :: "nbdb \<Rightarrow> command list \<Rightarrow> error + nbdb" where
  "transaction nb [] = Inr nb"
| "transaction nb (c # cs) =
     (case run_command c nb of Inl e \<Rightarrow> Inl e | Inr nb' \<Rightarrow> transaction nb' cs)"

section \<open>helper.py: the reconciliation worker\<close>

text \<open>
  What the helper reads from its surroundings: the configured AS number
  (\<^verbatim>\<open>cfg.CONF.ovn.bgp_as\<close>), the router port owners of \<^verbatim>\<open>neutron_lib.constants\<close>, the core
  plugin's \<^verbatim>\<open>get_ports(context, filters)\<close>, and the driver base class's
  \<^verbatim>\<open>get_bgpvpns(context, filters)\<close>. They are defined outside the two modules and are
  parameters here.
\<close>

record env =
  bgp_as :: pyval
  ROUTER_PORT_OWNERS :: pyval
  get_ports :: "pyval \<Rightarrow> pyval \<Rightarrow> error + pyval list"
  get_bgpvpns :: "pyval \<Rightarrow> pyval \<Rightarrow> error + pyval list"

text \<open>
  The worker thread is running (possibly blocked in \<^verbatim>\<open>get\<close>), has left its loop through
  \<^verbatim>\<open>break\<close>, or was ended by an exception raised outside the \<^verbatim>\<open>try\<close>.
\<close>

datatype thread_state = Running | Exited | Crashed error

text \<open>
  The trace records what the worker does, in order: a request comes out of the queue, a
  handler is called with the request's info, \<^verbatim>\<open>task_done\<close> is reached after the handler
  returned, \<^verbatim>\<open>LOG.exception\<close> is reached after something raised, and the store connection
  is stopped.
\<close>

datatype event =
    Dequeued pyval
  | Invoked string pyval
  | TaskDone
  | LoggedException error
  | Stopped

text \<open>
  The helper object. \<open>requests\<close> is the FIFO queue, its head the next item \<^verbatim>\<open>get\<close>
  returns. \<open>ovn_nbdb_api\<close> is \<open>None\<close> while the attribute is unbound (before
  \<^verbatim>\<open>_post_fork_initialize\<close> and after \<^verbatim>\<open>shutdown\<close>), and else holds the logical switch ports
  the API reads and writes. \<open>ovn_nbdb\<close> is \<open>None\<close> while that attribute is unbound, and
  else tells whether the connection is still open.
\<close>

record helper =
  requests :: "pyval list"
  helper_thread :: thread_state
  ovn_nbdb :: "bool option"
  ovn_nbdb_api :: "nbdb option"
  trace :: "event list"

text \<open>
  \<^verbatim>\<open>__init__\<close>: an empty queue and a started thread; the two connection attributes are
  bound later, by \<^verbatim>\<open>_post_fork_initialize\<close>, which opens the connection to the database
  whose logical switch ports are \<open>nb\<close>.
\<close>

definition new_helper :: helper where
  "new_helper =
     \<lparr>requests = [], helper_thread = Running, ovn_nbdb = None, ovn_nbdb_api = None,
      trace = []\<rparr>"

definition post_fork_initialize :: "nbdb \<Rightarrow> helper \<Rightarrow> helper" where
  "post_fork_initialize nb s = s\<lparr>ovn_nbdb := Some True, ovn_nbdb_api := Some nb\<rparr>"

definition add_request :: "pyval \<Rightarrow> helper \<Rightarrow> helper" where
  "add_request req s = s\<lparr>requests := requests s @ [req]\<rparr>"

text \<open>
  \<^verbatim>\<open>_execute_commands\<close>: reading \<^verbatim>\<open>self.ovn_nbdb_api\<close> raises while the attribute is
  unbound; the commands are added to one transaction, committed when the \<^verbatim>\<open>with\<close> block
  is left.
\<close>

definition execute_commands :: "nbdb option \<Rightarrow> command list \<Rightarrow> error + nbdb" where
  "execute_commands api commands =
     (case api of
        None \<Rightarrow> Inl (AttributeError ''ovn_nbdb_api'')
      | Some nb \<Rightarrow> transaction nb commands)"

text \<open>
  The first loop of \<^verbatim>\<open>create_router_assoc\<close> and \<^verbatim>\<open>delete_router_assoc\<close>: each port of the
  directory is looked up in the store and the uuid of its record is collected.
\<close>

fun port_uuids :: "nbdb option \<Rightarrow> pyval list \<Rightarrow> error + string list" where
  "port_uuids api [] = Inr []"
| "port_uuids api (iface # router_ports) =
     (case api of
        None \<Rightarrow> Inl (AttributeError ''ovn_nbdb_api'')
      | Some nb \<Rightarrow>
          and_then (py_getitem iface ''id'') (\<lambda>port.
          and_then (lsp_get nb port) (\<lambda>row.
          and_then (port_uuids api router_ports) (\<lambda>port_ids.
          Inr (uuid row # port_ids)))))"

definition router_port_filters :: "env \<Rightarrow> pyval \<Rightarrow> pyval" where
  "router_port_filters env router_id =
     PDict [(''device_id'', PList [router_id]), (''device_owner'', ROUTER_PORT_OWNERS env)]"

definition create_router_assoc :: "env \<Rightarrow> nbdb option \<Rightarrow> pyval \<Rightarrow> error + nbdb" where
  "create_router_assoc env api info =
     and_then (py_getitem info ''context'') (\<lambda>context.
     and_then (py_getitem info ''router_association'') (\<lambda>router_assoc.
     and_then (py_getitem info ''bgpvpn'') (\<lambda>bgpvpn.
     and_then (py_getitem router_assoc ''router_id'') (\<lambda>router_id.
     and_then (py_get bgpvpn ''vni'') (\<lambda>vni.
     let ids = [OVN_EVPN_VNI_EXT_ID_KEY \<mapsto> py_str vni,
                OVN_EVPN_AS_EXT_ID_KEY \<mapsto> py_str (bgp_as env)] in
     and_then (get_ports env context (router_port_filters env router_id)) (\<lambda>router_ports.
     and_then (port_uuids api router_ports) (\<lambda>port_ids.
     execute_commands api
       (map (\<lambda>port_id. Db_set ''Logical_Switch_Port'' port_id ''external_ids'' ids)
          port_ids))))))))"

definition delete_router_assoc :: "env \<Rightarrow> nbdb option \<Rightarrow> pyval \<Rightarrow> error + nbdb" where
  "delete_router_assoc env api info =
     and_then (py_getitem info ''context'') (\<lambda>context.
     and_then (py_getitem info ''router_association'') (\<lambda>router_assoc.
     and_then (py_getitem router_assoc ''router_id'') (\<lambda>router_id.
     and_then (get_ports env context (router_port_filters env router_id)) (\<lambda>router_ports.
     and_then (port_uuids api router_ports) (\<lambda>port_ids.
     execute_commands api
       (map (\<lambda>port_id. Db_remove ''Logical_Switch_Port'' port_id ''external_ids''
               OVN_EVPN_VNI_EXT_ID_KEY)
          port_ids))))))"

definition add_router_interface :: "env \<Rightarrow> nbdb option \<Rightarrow> pyval \<Rightarrow> error + nbdb" where
  "add_router_interface env api info =
     and_then (py_getitem info ''port_id'') (\<lambda>port_id.
     and_then (py_getitem info ''bgpvpn'') (\<lambda>bgpvpn.
     and_then (py_get bgpvpn ''vni'') (\<lambda>vni.
     let ids = [OVN_EVPN_VNI_EXT_ID_KEY \<mapsto> py_str vni,
                OVN_EVPN_AS_EXT_ID_KEY \<mapsto> py_str (bgp_as env)] in
     case api of
       None \<Rightarrow> Inl (AttributeError ''ovn_nbdb_api'')
     | Some nb \<Rightarrow>
         and_then (lsp_get nb port_id) (\<lambda>row.
         transaction nb [Db_set ''Logical_Switch_Port'' (uuid row) ''external_ids'' ids]))))"

text \<open>\<^verbatim>\<open>_init_bgpvpn_actions\<close>: the three registered request types and their handlers.\<close>

definition bgpvpn_request_func_maps ::
  "(string \<times> (env \<Rightarrow> nbdb option \<Rightarrow> pyval \<Rightarrow> error + nbdb)) list" where
  "bgpvpn_request_func_maps =
     [(REQ_TYPE_CREATE_ROUTER_ASSOC, create_router_assoc),
      (REQ_TYPE_DELETE_ROUTER_ASSOC, delete_router_assoc),
      (REQ_TYPE_ADD_ROUTER_INTERFACE, add_router_interface)]"

text \<open>
  \<^verbatim>\<open>self._bgpvpn_request_func_maps.get(request_type)\<close>: a list or a dict cannot be hashed,
  every other key that is not one of the three strings gives \<^verbatim>\<open>None\<close>.
\<close>

fun func_maps_get ::
  "pyval \<Rightarrow> error + (string \<times> (env \<Rightarrow> nbdb option \<Rightarrow> pyval \<Rightarrow> error + nbdb)) option" where
  "func_maps_get (PStr t) =
     Inr (case map_of bgpvpn_request_func_maps t of None \<Rightarrow> None | Some h \<Rightarrow> Some (t, h))"
| "func_maps_get (PList xs) = Inl (TypeError ''unhashable type: list'')"
| "func_maps_get (PDict d) = Inl (TypeError ''unhashable type: dict'')"
| "func_maps_get v = Inr None"

text \<open>
  The body of the \<^verbatim>\<open>try\<close>: the handler, when there is one, is called with
  \<^verbatim>\<open>request['info']\<close>, and \<^verbatim>\<open>task_done\<close> follows. The result is the state the loop goes on
  with, or the state reached when the exception was raised together with the exception.
  A handler that raises has written nothing: its only write is its one transaction.
  The counter \<^verbatim>\<open>task_done\<close> decrements is read by nothing here (the queue is never
  joined), so the call is recorded in the trace and has no other effect.
\<close>

definition try_body ::
  "env \<Rightarrow> (string \<times> (env \<Rightarrow> nbdb option \<Rightarrow> pyval \<Rightarrow> error + nbdb)) option \<Rightarrow> pyval
     \<Rightarrow> helper \<Rightarrow> helper \<times> error option" where
  "try_body env request_handler request s =
     (case request_handler of
        None \<Rightarrow> (s\<lparr>trace := trace s @ [TaskDone]\<rparr>, None)
      | Some (t, h) \<Rightarrow>
          (case py_getitem request ''info'' of
             Inl e \<Rightarrow> (s, Some e)
           | Inr info \<Rightarrow>
               (case h env (ovn_nbdb_api s) info of
                  Inl e \<Rightarrow> (s\<lparr>trace := trace s @ [Invoked t info]\<rparr>, Some e)
                | Inr nb' \<Rightarrow>
                    (s\<lparr>ovn_nbdb_api := Some nb',
                       trace := trace s @ [Invoked t info, TaskDone]\<rparr>, None))))"

text \<open>
  One turn of the \<^verbatim>\<open>while True\<close> loop of \<^verbatim>\<open>_request_handler\<close>. On an empty queue
  \<^verbatim>\<open>get\<close> blocks and nothing changes. \<^verbatim>\<open>request['type']\<close> and the lookup of the handler
  stand outside the \<^verbatim>\<open>try\<close>, so an exception there ends the thread.
\<close>

definition loop_body :: "env \<Rightarrow> helper \<Rightarrow> helper" where
  "loop_body env s =
     (case requests s of
        [] \<Rightarrow> s
      | request # rest \<Rightarrow>
          (let s1 = s\<lparr>requests := rest, trace := trace s @ [Dequeued request]\<rparr> in
           case py_getitem request ''type'' of
             Inl e \<Rightarrow> s1\<lparr>helper_thread := Crashed e\<rparr>
           | Inr request_type \<Rightarrow>
               if request_type = PStr REQ_TYPE_EXIT then s1\<lparr>helper_thread := Exited\<rparr>
               else
                 (case func_maps_get request_type of
                    Inl e \<Rightarrow> s1\<lparr>helper_thread := Crashed e\<rparr>
                  | Inr request_handler \<Rightarrow>
                      (case try_body env request_handler request s1 of
                         (s2, None) \<Rightarrow> s2
                       | (s2, Some e) \<Rightarrow> s2\<lparr>trace := trace s2 @ [LoggedException e]\<rparr>))))"

text \<open>
  \<^verbatim>\<open>_request_handler\<close>: the worker thread runs its loop until it has left it or the queue
  is empty, where it waits for the next \<^verbatim>\<open>put\<close>.
\<close>

function request_handler :: "env \<Rightarrow> helper \<Rightarrow> helper" where
  "request_handler env s =
     (if helper_thread s \<noteq> Running \<or> requests s = [] then s
      else request_handler env (loop_body env s))"
  by pat_completeness auto
termination
  by (relation "measure (\<lambda>(env, s). length (requests s))")
     (auto simp: loop_body_def try_body_def Let_def
        split: list.splits sum.splits option.splits prod.splits)

declare request_handler.simps [simp del]

text \<open>
  \<^verbatim>\<open>shutdown\<close>: the exit request is put on the queue and the thread is joined, that is,
  the worker runs until it has ended; then the connection is stopped and the API
  attribute is deleted. Either of the last two raises while its attribute is unbound.
\<close>

definition shutdown :: "env \<Rightarrow> helper \<Rightarrow> helper \<times> error option" where
  "shutdown env s =
     (let s1 = add_request (PDict [(''type'', PStr REQ_TYPE_EXIT)]) s;
          s2 = request_handler env s1
      in case ovn_nbdb s2 of
           None \<Rightarrow> (s2, Some (AttributeError ''ovn_nbdb''))
         | Some running \<Rightarrow>
             (let s3 = s2\<lparr>ovn_nbdb := Some False, trace := trace s2 @ [Stopped]\<rparr> in
              case ovn_nbdb_api s3 of
                None \<Rightarrow> (s3, Some (AttributeError ''ovn_nbdb_api''))
              | Some nb \<Rightarrow> (s3\<lparr>ovn_nbdb_api := None\<rparr>, None)))"

text \<open>
  The producers and the worker run side by side. A schedule lists, in the order they take
  place, the calls of \<^verbatim>\<open>add_request\<close> by the producers and the turns of the worker's loop;
  a worker that has ended takes no further turn.
\<close>

datatype action = Add_request pyval | Worker_turn

fun run_schedule :: "env \<Rightarrow> action list \<Rightarrow> helper \<Rightarrow> helper" where
  "run_schedule env [] s = s"
| "run_schedule env (Add_request req # sched) s = run_schedule env sched (add_request req s)"
| "run_schedule env (Worker_turn # sched) s =
     run_schedule env sched (if helper_thread s = Running then loop_body env s else s)"

section \<open>ovn.py: the driver\<close>

text \<open>
  \<^verbatim>\<open>_common_precommit_checks\<close>: five attributes are tested for truth in turn, then the
  type is looked up in the supported types.
\<close>

definition common_precommit_checks :: "pyval \<Rightarrow> error + unit" where
  "common_precommit_checks bgpvpn =
     and_then (py_get bgpvpn ''route_distinguishers'') (\<lambda>rds.
     if truthy rds then Inl (BGPVPNRDNotSupported OVN_DRIVER_NAME) else
     and_then (py_get bgpvpn ''route_targets'') (\<lambda>rts.
     if truthy rts then Inl (BGPVPNRTNotSupported OVN_DRIVER_NAME) else
     and_then (py_get bgpvpn ''import_targets'') (\<lambda>its.
     if truthy its then Inl (BGPVPNITNotSupported OVN_DRIVER_NAME) else
     and_then (py_get bgpvpn ''export_targets'') (\<lambda>ets.
     if truthy ets then Inl (BGPVPNETNotSupported OVN_DRIVER_NAME) else
     and_then (py_get bgpvpn ''local_pref'') (\<lambda>local_pref.
     if truthy local_pref then Inl (BGPVPNLocalPrefNotSupported OVN_DRIVER_NAME) else
     and_then (py_get bgpvpn ''type'') (\<lambda>bgp_type.
     if bgp_type \<notin> set OVN_SUPPORTED_BGPVPN_TYPES
     then Inl (BGPVPNTypeNotSupported OVN_DRIVER_NAME bgp_type)
     else Inr ()))))))"

text \<open>
  The driver object: its helper, and what \<^verbatim>\<open>_log_callback_processing_exception\<close> has
  logged.
\<close>

record driver =
  ovn_helper :: helper
  callback_log :: "error list"

definition create_bgpvpn_precommit :: "driver \<Rightarrow> pyval \<Rightarrow> pyval \<Rightarrow> error + driver" where
  "create_bgpvpn_precommit d context bgpvpn =
     and_then (common_precommit_checks bgpvpn) (\<lambda>u. Inr d)"

definition update_bgpvpn_precommit ::
  "driver \<Rightarrow> pyval \<Rightarrow> pyval \<Rightarrow> pyval \<Rightarrow> error + driver" where
  "update_bgpvpn_precommit d context old_bgpvpn bgpvpn =
     and_then (common_precommit_checks bgpvpn) (\<lambda>u. Inr d)"

text \<open>The event payload of a registry callback: context, resource id and metadata.\<close>

record payload =
  payload_context :: pyval
  resource_id :: pyval
  metadata :: pyval

text \<open>
  \<^verbatim>\<open>registry_router_interface_created\<close>. Whatever the \<^verbatim>\<open>try\<close> block raises is logged and
  the callback returns. Without a payload the block raises at once, and the
  \<^verbatim>\<open>except\<close> clause, which reads \<^verbatim>\<open>payload.metadata\<close>, raises again.
\<close>

definition router_interface_created_body :: "env \<Rightarrow> driver \<Rightarrow> payload \<Rightarrow> error + driver" where
  "router_interface_created_body env d p =
     (let context = payload_context p; router_id = resource_id p in
      and_then (py_get (metadata p) ''port'') (\<lambda>port.
      and_then (py_get port ''id'') (\<lambda>port_id.
      and_then (get_bgpvpns env context (PDict [(''routers'', PList [router_id])])) (\<lambda>bgpvpns.
      case bgpvpns of
        [] \<Rightarrow> Inr d
      | bgpvpn # others \<Rightarrow>
          Inr (d\<lparr>ovn_helper :=
                 add_request
                   (PDict [(''type'', PStr REQ_TYPE_ADD_ROUTER_INTERFACE),
                           (''info'', PDict [(''port_id'', port_id), (''bgpvpn'', bgpvpn)])])
                   (ovn_helper d)\<rparr>)))))"

definition registry_router_interface_created ::
  "env \<Rightarrow> driver \<Rightarrow> payload option \<Rightarrow> error + driver" where
  "registry_router_interface_created env d payload =
     (case payload of
        None \<Rightarrow> Inl (AttributeError ''metadata'')
      | Some p \<Rightarrow>
          (case router_interface_created_body env d p of
             Inl e \<Rightarrow> Inr (d\<lparr>callback_log := callback_log d @ [e]\<rparr>)
           | Inr d' \<Rightarrow> Inr d'))"

section \<open>Notions used in the statements\<close>

text \<open>
  A command request: a request whose type is a string other than the exit sentinel.
\<close>

definition command_request :: "pyval \<Rightarrow> bool" where
  "command_request r =
     (case py_getitem r ''type'' of Inr (PStr t) \<Rightarrow> t \<noteq> REQ_TYPE_EXIT | _ \<Rightarrow> False)"

text \<open>
  The handler call a request gives rise to: its type is registered and it carries an
  info. A request of an unregistered type, or without info, calls no handler.
\<close>

definition handler_call :: "pyval \<Rightarrow> (string \<times> pyval) list" where
  "handler_call r =
     (case py_getitem r ''type'' of
        Inr (PStr t) \<Rightarrow>
          (case map_of bgpvpn_request_func_maps t of
             None \<Rightarrow> []
           | Some h \<Rightarrow> (case py_getitem r ''info'' of Inl e \<Rightarrow> [] | Inr info \<Rightarrow> [(t, info)]))
      | _ \<Rightarrow> [])"

text \<open>
  Readings of a trace: the requests taken from the queue, and the handler calls, both in
  order. A trace is serial when it is a sequence of complete turns: each request taken
  from the queue is finished, by \<open>TaskDone\<close> or by \<open>LoggedException\<close>, before the next
  one is taken.
\<close>

fun dequeued :: "event list \<Rightarrow> pyval list" where
  "dequeued [] = []"
| "dequeued (Dequeued r # tr) = r # dequeued tr"
| "dequeued (e # tr) = dequeued tr"

fun invoked :: "event list \<Rightarrow> (string \<times> pyval) list" where
  "invoked [] = []"
| "invoked (Invoked t info # tr) = (t, info) # invoked tr"
| "invoked (e # tr) = invoked tr"

fun serial :: "event list \<Rightarrow> bool" where
  "serial [] = True"
| "serial (Dequeued r # TaskDone # tr) = serial tr"
| "serial (Dequeued r # LoggedException e # tr) = serial tr"
| "serial (Dequeued r # Invoked t info # TaskDone # tr) = serial tr"
| "serial (Dequeued r # Invoked t info # LoggedException e # tr) = serial tr"
| "serial tr = False"

text \<open>The requests a schedule puts on the queue, in order.\<close>

fun enqueued :: "action list \<Rightarrow> pyval list" where
  "enqueued [] = []"
| "enqueued (Add_request r # sched) = r # enqueued sched"
| "enqueued (Worker_turn # sched) = enqueued sched"

text \<open>What one turn for the request \<open>r\<close> adds to the trace.\<close>

definition turn :: "pyval \<Rightarrow> event list \<Rightarrow> bool" where
  "turn r tr = (serial tr \<and> dequeued tr = [r] \<and> invoked tr = handler_call r)"

text \<open>
  The store after the request \<open>r\<close> has been executed on the store \<open>api\<close>: the registered
  handler of its type, called with its info, leaves the store it returns; a handler that
  raises leaves the store as it was, and so does a request that calls no handler.
  Executing the requests \<open>rs\<close> one after the other, each on the store the one before it
  left, is \<open>foldl (execute env) api rs\<close>.
\<close>

definition execute :: "env \<Rightarrow> nbdb option \<Rightarrow> pyval \<Rightarrow> nbdb option" where
  "execute env api r =
     (case handler_call r of
        [] \<Rightarrow> api
      | (t, info) # calls \<Rightarrow>
          (case map_of bgpvpn_request_func_maps t of
             None \<Rightarrow> api
           | Some h \<Rightarrow> (case h env api info of Inl e \<Rightarrow> api | Inr nb' \<Rightarrow> Some nb')))"

text \<open>
  \<open>served env s rs s'\<close>: from \<open>s\<close> to \<open>s'\<close> the trace grew by one complete turn for each of
  the requests \<open>rs\<close>, in that order, and the store is the one their execution in that
  order leaves.
\<close>

definition served :: "env \<Rightarrow> helper \<Rightarrow> pyval list \<Rightarrow> helper \<Rightarrow> bool" where
  "served env s rs s' =
     (\<exists>turns. trace s' = trace s @ concat turns \<and> list_all2 turn rs turns \<and>
              ovn_nbdb_api s' = foldl (execute env) (ovn_nbdb_api s) rs)"

text \<open>Keys a dict lookup accepts: lists and dicts cannot be hashed.\<close>

fun hashable :: "pyval \<Rightarrow> bool" where
  "hashable (PList xs) = False"
| "hashable (PDict d) = False"
| "hashable v = True"

text \<open>
  The store after a transaction of set commands, or of remove commands, on the records with
  the uuids \<open>us\<close>; and a port of the directory resolving to the record with uuid \<open>u\<close>.
\<close>

definition annotate :: "string list \<Rightarrow> (string \<rightharpoonup> string) \<Rightarrow> lsp \<Rightarrow> lsp" where
  "annotate us e r = (if uuid r \<in> set us then r\<lparr>external_ids := external_ids r ++ e\<rparr> else r)"

definition strip_key :: "string list \<Rightarrow> string \<Rightarrow> lsp \<Rightarrow> lsp" where
  "strip_key us k r = (if uuid r \<in> set us then r\<lparr>external_ids := (external_ids r)(k := None)\<rparr> else r)"

definition resolves :: "nbdb \<Rightarrow> pyval \<Rightarrow> string \<Rightarrow> bool" where
  "resolves nb iface u =
     (case py_getitem iface ''id'' of Inl e \<Rightarrow> False
      | Inr port \<Rightarrow> (case lsp_get nb port of Inl e \<Rightarrow> False | Inr row \<Rightarrow> uuid row = u))"

text \<open>
  The five attributes the driver does not support, in the order the checks take them.
\<close>

definition unsupported_attributes :: "string list" where
  "unsupported_attributes =
     [''route_distinguishers'', ''route_targets'', ''import_targets'', ''export_targets'',
      ''local_pref'']"

text \<open>The value \<^verbatim>\<open>bgpvpn.get(k, None)\<close> reads from a dict.\<close>

definition attribute :: "(string \<times> pyval) list \<Rightarrow> string \<Rightarrow> pyval" where
  "attribute d k = (case map_of d k of None \<Rightarrow> PNone | Some v \<Rightarrow> v)"

section \<open>A concrete deployment\<close>

text \<open>
  Router \<^verbatim>\<open>router-1\<close> has an interface port and a gateway port, both with a record in the
  store, and two BGPVPNs; the one port of \<^verbatim>\<open>router-2\<close> has no record in the store; port
  \<^verbatim>\<open>port-c\<close> has a record and belongs to no router yet.
\<close>

definition example_owners :: pyval where
  "example_owners = PList [PStr ''network:router_interface'', PStr ''network:router_gateway'']"

definition example_ports :: "pyval list" where
  "example_ports =
     [PDict [(''id'', PStr ''port-a''), (''device_id'', PStr ''router-1''),
             (''device_owner'', PStr ''network:router_interface'')],
      PDict [(''id'', PStr ''port-b''), (''device_id'', PStr ''router-1''),
             (''device_owner'', PStr ''network:router_gateway'')]]"

definition example_bgpvpn :: pyval where
  "example_bgpvpn = PDict [(''id'', PStr ''bgpvpn-1''), (''type'', PStr ''l3''), (''vni'', PInt 1000)]"

definition example_bgpvpn_no_vni :: pyval where
  "example_bgpvpn_no_vni =
     PDict [(''id'', PStr ''bgpvpn-2''), (''type'', PStr ''l3''), (''vni'', PNone)]"

definition example_env :: env where
  "example_env =
     \<lparr>bgp_as = PInt 64512,
      ROUTER_PORT_OWNERS = example_owners,
      get_ports = (\<lambda>context filters.
        if filters = PDict [(''device_id'', PList [PStr ''router-1'']),
                            (''device_owner'', example_owners)]
        then Inr example_ports
        else if filters = PDict [(''device_id'', PList [PStr ''router-2'']),
                                 (''device_owner'', example_owners)]
        then Inr [PDict [(''id'', PStr ''port-z'')]]
        else Inr []),
      get_bgpvpns = (\<lambda>context filters.
        if filters = PDict [(''routers'', PList [PStr ''router-1''])]
        then Inr [example_bgpvpn, example_bgpvpn_no_vni] else Inr [])\<rparr>"

definition example_nb :: nbdb where
  "example_nb =
     [\<lparr>uuid = ''uuid-a'', name = ''port-a'', external_ids = [''neutron:cidrs'' \<mapsto> ''10.0.0.1/24'']\<rparr>,
      \<lparr>uuid = ''uuid-b'', name = ''port-b'', external_ids = Map.empty\<rparr>,
      \<lparr>uuid = ''uuid-c'', name = ''port-c'', external_ids = Map.empty\<rparr>]"

definition example_annotated_nb :: nbdb where
  "example_annotated_nb =
     [\<lparr>uuid = ''uuid-a'', name = ''port-a'',
       external_ids = [''neutron:cidrs'' \<mapsto> ''10.0.0.1/24'', ''neutron_bgpvpn:vni'' \<mapsto> ''1000'',
                       ''neutron_bgpvpn:as'' \<mapsto> ''64512'']\<rparr>,
      \<lparr>uuid = ''uuid-b'', name = ''port-b'',
       external_ids = [''neutron_bgpvpn:vni'' \<mapsto> ''1000'', ''neutron_bgpvpn:as'' \<mapsto> ''64512'']\<rparr>,
      \<lparr>uuid = ''uuid-c'', name = ''port-c'', external_ids = Map.empty\<rparr>]"

definition example_final_nb :: nbdb where
  "example_final_nb =
     [\<lparr>uuid = ''uuid-a'', name = ''port-a'',
       external_ids = [''neutron:cidrs'' \<mapsto> ''10.0.0.1/24'', ''neutron_bgpvpn:vni'' \<mapsto> ''1000'',
                       ''neutron_bgpvpn:as'' \<mapsto> ''64512'']\<rparr>,
      \<lparr>uuid = ''uuid-b'', name = ''port-b'',
       external_ids = [''neutron_bgpvpn:vni'' \<mapsto> ''1000'', ''neutron_bgpvpn:as'' \<mapsto> ''64512'']\<rparr>,
      \<lparr>uuid = ''uuid-c'', name = ''port-c'',
       external_ids = [''neutron_bgpvpn:vni'' \<mapsto> ''1000'', ''neutron_bgpvpn:as'' \<mapsto> ''64512'']\<rparr>]"

definition example_nb_with_port_c :: nbdb where
  "example_nb_with_port_c =
     [\<lparr>uuid = ''uuid-a'', name = ''port-a'', external_ids = [''neutron:cidrs'' \<mapsto> ''10.0.0.1/24'']\<rparr>,
      \<lparr>uuid = ''uuid-b'', name = ''port-b'', external_ids = Map.empty\<rparr>,
      \<lparr>uuid = ''uuid-c'', name = ''port-c'',
       external_ids = [''neutron_bgpvpn:vni'' \<mapsto> ''1000'', ''neutron_bgpvpn:as'' \<mapsto> ''64512'']\<rparr>]"

definition example_router_assoc :: pyval where
  "example_router_assoc =
     PDict [(''id'', PStr ''assoc-1''), (''router_id'', PStr ''router-1''),
            (''bgpvpn_id'', PStr ''bgpvpn-1'')]"

definition example_create_info :: pyval where
  "example_create_info =
     PDict [(''context'', PStr ''admin''), (''router_association'', example_router_assoc),
            (''bgpvpn'', example_bgpvpn)]"

definition example_delete_info :: pyval where
  "example_delete_info =
     PDict [(''context'', PStr ''admin''), (''router_association'', example_router_assoc)]"

definition example_create_info_no_vni :: pyval where
  "example_create_info_no_vni =
     PDict [(''context'', PStr ''admin''), (''router_association'', example_router_assoc),
            (''bgpvpn'', example_bgpvpn_no_vni)]"

definition example_add_info :: pyval where
  "example_add_info = PDict [(''port_id'', PStr ''port-c''), (''bgpvpn'', example_bgpvpn)]"

definition example_add_info_no_vni :: pyval where
  "example_add_info_no_vni =
     PDict [(''port_id'', PStr ''port-c''), (''bgpvpn'', example_bgpvpn_no_vni)]"

definition example_failing_info :: pyval where
  "example_failing_info =
     PDict [(''context'', PStr ''admin''),
            (''router_association'',
               PDict [(''id'', PStr ''assoc-2''), (''router_id'', PStr ''router-2'')]),
            (''bgpvpn'', example_bgpvpn)]"

definition example_create_request :: pyval where
  "example_create_request =
     PDict [(''type'', PStr ''create_router_assoc''), (''info'', example_create_info)]"

definition example_failing_request :: pyval where
  "example_failing_request =
     PDict [(''type'', PStr ''create_router_assoc''), (''info'', example_failing_info)]"

definition example_add_request :: pyval where
  "example_add_request =
     PDict [(''type'', PStr ''add_router_interface''), (''info'', example_add_info)]"

definition example_unknown_request :: pyval where
  "example_unknown_request =
     PDict [(''type'', PStr ''remove_router_interface''),
            (''info'', PDict [(''port_id'', PStr ''port-c'')])]"

definition example_helper :: helper where
  "example_helper = post_fork_initialize example_nb new_helper"

definition example_driver :: driver where
  "example_driver = \<lparr>ovn_helper = example_helper, callback_log = []\<rparr>"

definition example_payload :: payload where
  "example_payload =
     \<lparr>payload_context = PStr ''admin'', resource_id = PStr ''router-1'',
      metadata = PDict [(''port'', PDict [(''id'', PStr ''port-c'')])]\<rparr>"

definition example_payload_no_bgpvpn :: payload where
  "example_payload_no_bgpvpn =
     \<lparr>payload_context = PStr ''admin'', resource_id = PStr ''router-9'',
      metadata = PDict [(''port'', PDict [(''id'', PStr ''port-c'')])]\<rparr>"

definition example_schedule :: "action list" where
  "example_schedule =
     [Add_request example_create_request, Worker_turn,
      Add_request example_unknown_request, Add_request example_add_request]"

definition example_failing_helper :: helper where
  "example_failing_helper =
     example_helper\<lparr>requests := [example_failing_request, example_add_request]\<rparr>"

definition example_busy_helper :: helper where
  "example_busy_helper =
     example_helper\<lparr>requests := [example_create_request, example_add_request]\<rparr>"

definition example_unknown_helper :: helper where
  "example_unknown_helper =
     example_helper\<lparr>requests := [example_unknown_request, example_add_request]\<rparr>"

section \<open>The store: lookups and transactions\<close>

lemma find_map_lsp: "find P (map f xs) = map_option f (find (\<lambda>x. P (f x)) xs)"
  by (induction xs) auto

lemma lsp_get_map:
  assumes "\<And>r. name (f r) = name r"
  shows "lsp_get (map f nb) port = (case lsp_get nb port of Inl e \<Rightarrow> Inl e | Inr r \<Rightarrow> Inr (f r))"
  by (cases port) (auto simp: find_map_lsp assms split: option.splits)

lemma lsp_get_Inr: "lsp_get nb port = Inr r \<Longrightarrow> r \<in> set nb \<and> port = PStr (name r)"
  by (cases port) (auto simp: find_Some_iff split: option.splits)

lemma name_annotate [simp]: "name (annotate us e r) = name r"
  by (simp add: annotate_def)
lemma uuid_annotate [simp]: "uuid (annotate us e r) = uuid r"
  by (simp add: annotate_def)
lemma name_strip_key [simp]: "name (strip_key us k r) = name r"
  by (simp add: strip_key_def)
lemma uuid_strip_key [simp]: "uuid (strip_key us k r) = uuid r"
  by (simp add: strip_key_def)

lemma map_add_twice: "m ++ e ++ e = m ++ e"
  by (rule ext) (simp add: map_add_def split: option.splits)

lemma annotate_set_external_ids:
  "annotate us e (set_external_ids u e r) = annotate (u # us) e r"
  by (simp add: annotate_def set_external_ids_def map_add_twice)

lemma strip_key_remove_external_id:
  "strip_key us k (remove_external_id u k r) = strip_key (u # us) k r"
  by (simp add: strip_key_def remove_external_id_def)

lemma annotate_idem: "annotate us e (annotate us e r) = annotate us e r"
  by (simp add: annotate_def map_add_twice)

lemma annotate_Nil: "annotate [] e r = r"
  by (simp add: annotate_def)

lemma strip_key_Nil: "strip_key [] k r = r"
  by (simp add: strip_key_def)

lemma transaction_db_set:
  "set us \<subseteq> set (map uuid nb) \<Longrightarrow>
   transaction nb (map (\<lambda>u. Db_set ''Logical_Switch_Port'' u ''external_ids'' e) us)
     = Inr (map (annotate us e) nb)"
proof (induction us arbitrary: nb)
  case Nil
  then show ?case by (simp add: annotate_Nil)
next
  case (Cons u us)
  let ?nb = "map (set_external_ids u e) nb"
  have uu: "map uuid ?nb = map uuid nb"
    by (simp add: set_external_ids_def)
  have "set us \<subseteq> set (map uuid ?nb)"
    using Cons.prems unfolding uu by simp
  from Cons.IH [OF this] Cons.prems show ?case
    by (simp add: annotate_set_external_ids)
qed

lemma transaction_db_remove:
  "set us \<subseteq> set (map uuid nb) \<Longrightarrow>
   transaction nb (map (\<lambda>u. Db_remove ''Logical_Switch_Port'' u ''external_ids'' k) us)
     = Inr (map (strip_key us k) nb)"
proof (induction us arbitrary: nb)
  case Nil
  then show ?case by (simp add: strip_key_Nil)
next
  case (Cons u us)
  let ?nb = "map (remove_external_id u k) nb"
  have uu: "map uuid ?nb = map uuid nb"
    by (simp add: remove_external_id_def)
  have "set us \<subseteq> set (map uuid ?nb)"
    using Cons.prems unfolding uu by simp
  from Cons.IH [OF this] Cons.prems show ?case
    by (simp add: strip_key_remove_external_id)
qed

lemma port_uuids_Inr:
  "port_uuids (Some nb) ports = Inr us \<Longrightarrow> list_all2 (resolves nb) ports us"
  by (induction ports arbitrary: us)
     (auto simp: and_then_def resolves_def split: sum.splits)

lemma port_uuids_intro:
  "list_all2 (resolves nb) ports us \<Longrightarrow> port_uuids (Some nb) ports = Inr us"
  by (induction ports us rule: list_all2_induct)
     (auto simp: and_then_def resolves_def split: sum.splits)

lemma port_uuids_None: "port_uuids None ports = Inr us \<Longrightarrow> ports = [] \<and> us = []"
  by (cases ports) auto

lemma resolves_uuid: "resolves nb iface u \<Longrightarrow> u \<in> set (map uuid nb)"
  by (auto simp: resolves_def split: sum.splits dest: lsp_get_Inr)

lemma resolved_subset: "list_all2 (resolves nb) ports us \<Longrightarrow> set us \<subseteq> set (map uuid nb)"
  by (induction ports us rule: list_all2_induct) (auto dest: resolves_uuid)

lemma resolves_map:
  assumes "\<And>r. name (f r) = name r" "\<And>r. uuid (f r) = uuid r"
  shows "resolves (map f nb) iface u = resolves nb iface u"
  by (auto simp: resolves_def lsp_get_map assms split: sum.splits)

lemma resolves_exists:
  "\<forall>iface\<in>set ports. \<exists>port row. py_getitem iface ''id'' = Inr port \<and> lsp_get nb port = Inr row
   \<Longrightarrow> \<exists>us. list_all2 (resolves nb) ports us"
proof (induction ports)
  case Nil
  then show ?case by simp
next
  case (Cons iface ports)
  then obtain us where us: "list_all2 (resolves nb) ports us" by auto
  from Cons.prems obtain port row where
    "py_getitem iface ''id'' = Inr port" "lsp_get nb port = Inr row" by auto
  then have "resolves nb iface (uuid row)" by (simp add: resolves_def)
  with us have "list_all2 (resolves nb) (iface # ports) (uuid row # us)" by simp
  then show ?case by blast
qed

lemma resolved_member:
  "list_all2 (resolves nb) ports us \<Longrightarrow> iface \<in> set ports \<Longrightarrow> \<exists>u\<in>set us. resolves nb iface u"
  by (induction ports us rule: list_all2_induct) auto

lemma resolvesD:
  "resolves nb iface u \<Longrightarrow>
   \<exists>port row. py_getitem iface ''id'' = Inr port \<and> lsp_get nb port = Inr row \<and> uuid row = u"
  by (auto simp: resolves_def split: sum.splits)

lemma create_router_assoc_ok:
  assumes "py_getitem info ''context'' = Inr context"
    and "py_getitem info ''router_association'' = Inr router_assoc"
    and "py_getitem info ''bgpvpn'' = Inr bgpvpn"
    and "py_getitem router_assoc ''router_id'' = Inr router_id"
    and "py_get bgpvpn ''vni'' = Inr vni"
    and "get_ports env context (router_port_filters env router_id) = Inr router_ports"
    and "list_all2 (resolves nb) router_ports us"
  shows "create_router_assoc env (Some nb) info =
     Inr (map (annotate us [OVN_EVPN_VNI_EXT_ID_KEY \<mapsto> py_str vni,
                            OVN_EVPN_AS_EXT_ID_KEY \<mapsto> py_str (bgp_as env)]) nb)"
  using assms transaction_db_set [OF resolved_subset [OF assms(7)]]
  by (simp add: create_router_assoc_def and_then_def port_uuids_intro execute_commands_def)

lemma delete_router_assoc_ok:
  assumes "py_getitem info ''context'' = Inr context"
    and "py_getitem info ''router_association'' = Inr router_assoc"
    and "py_getitem router_assoc ''router_id'' = Inr router_id"
    and "get_ports env context (router_port_filters env router_id) = Inr router_ports"
    and "list_all2 (resolves nb) router_ports us"
  shows "delete_router_assoc env (Some nb) info =
     Inr (map (strip_key us OVN_EVPN_VNI_EXT_ID_KEY) nb)"
  using assms transaction_db_remove [OF resolved_subset [OF assms(5)]]
  by (simp add: delete_router_assoc_def and_then_def port_uuids_intro execute_commands_def)

lemma add_router_interface_ok:
  assumes "py_getitem info ''port_id'' = Inr port_id"
    and "py_getitem info ''bgpvpn'' = Inr bgpvpn"
    and "py_get bgpvpn ''vni'' = Inr vni"
    and "lsp_get nb port_id = Inr row"
  shows "add_router_interface env (Some nb) info =
     Inr (map (annotate [uuid row] [OVN_EVPN_VNI_EXT_ID_KEY \<mapsto> py_str vni,
                            OVN_EVPN_AS_EXT_ID_KEY \<mapsto> py_str (bgp_as env)]) nb)"
proof -
  have "uuid row \<in> set (map uuid nb)"
    using lsp_get_Inr [OF assms(4)] by auto
  then have "set [uuid row] \<subseteq> set (map uuid nb)" by simp
  from transaction_db_set [OF this] show ?thesis
    using assms by (simp add: add_router_interface_def and_then_def)
qed

lemma create_router_assoc_Inr:
  assumes "create_router_assoc env api info = Inr nb'"
  obtains ctx router_assoc bgpvpn router_id vni router_ports us nb where
    "py_getitem info ''context'' = Inr ctx"
    "py_getitem info ''router_association'' = Inr router_assoc"
    "py_getitem info ''bgpvpn'' = Inr bgpvpn"
    "py_getitem router_assoc ''router_id'' = Inr router_id"
    "py_get bgpvpn ''vni'' = Inr vni"
    "get_ports env ctx (router_port_filters env router_id) = Inr router_ports"
    "api = Some nb"
    "list_all2 (resolves nb) router_ports us"
proof -
  from assms obtain ctx router_assoc bgpvpn router_id vni router_ports us where
    a: "py_getitem info ''context'' = Inr ctx"
    "py_getitem info ''router_association'' = Inr router_assoc"
    "py_getitem info ''bgpvpn'' = Inr bgpvpn"
    "py_getitem router_assoc ''router_id'' = Inr router_id"
    "py_get bgpvpn ''vni'' = Inr vni"
    "get_ports env ctx (router_port_filters env router_id) = Inr router_ports"
    and b: "port_uuids api router_ports = Inr us"
    and c: "execute_commands api
       (map (\<lambda>port_id. Db_set ''Logical_Switch_Port'' port_id ''external_ids''
           [OVN_EVPN_VNI_EXT_ID_KEY \<mapsto> py_str vni,
            OVN_EVPN_AS_EXT_ID_KEY \<mapsto> py_str (bgp_as env)]) us) = Inr nb'"
    by (auto simp: create_router_assoc_def and_then_def Let_def split: sum.splits)
  from c obtain nb where nb: "api = Some nb"
    by (auto simp: execute_commands_def split: option.splits)
  from b nb have "list_all2 (resolves nb) router_ports us"
    by (simp add: port_uuids_Inr)
  with a nb that show thesis by blast
qed

lemma annotated_row:
  assumes "list_all2 (resolves nb) ports us" "iface \<in> set ports"
  shows "\<exists>port row. py_getitem iface ''id'' = Inr port \<and> lsp_get nb port = Inr row \<and>
           lsp_get (map (annotate us e) nb) port = Inr (row\<lparr>external_ids := external_ids row ++ e\<rparr>)"
proof -
  from resolved_member [OF assms] obtain u where u: "u \<in> set us" "resolves nb iface u" by blast
  from resolvesD [OF u(2)] obtain port row where
    r: "py_getitem iface ''id'' = Inr port" "lsp_get nb port = Inr row" "uuid row = u" by blast
  have "lsp_get (map (annotate us e) nb) port = Inr (annotate us e row)"
    using r(2) by (simp add: lsp_get_map)
  with u(1) r show ?thesis by (auto simp: annotate_def)
qed

lemma stripped_row:
  assumes "list_all2 (resolves nb) ports us" "iface \<in> set ports"
  shows "\<exists>port row. py_getitem iface ''id'' = Inr port \<and> lsp_get nb port = Inr row \<and>
           lsp_get (map (strip_key us k) nb) port = Inr (row\<lparr>external_ids := (external_ids row)(k := None)\<rparr>)"
proof -
  from resolved_member [OF assms] obtain u where u: "u \<in> set us" "resolves nb iface u" by blast
  from resolvesD [OF u(2)] obtain port row where
    r: "py_getitem iface ''id'' = Inr port" "lsp_get nb port = Inr row" "uuid row = u" by blast
  have "lsp_get (map (strip_key us k) nb) port = Inr (strip_key us k row)"
    using r(2) by (simp add: lsp_get_map)
  with u(1) r show ?thesis by (auto simp: strip_key_def)
qed

lemma evpn_keys_distinct: "OVN_EVPN_VNI_EXT_ID_KEY \<noteq> OVN_EVPN_AS_EXT_ID_KEY"
  by (simp add: OVN_EVPN_VNI_EXT_ID_KEY_def OVN_EVPN_AS_EXT_ID_KEY_def)

section \<open>The handlers\<close>

text \<open>
  C2. For a router whose directory lookup, filtered by the association's router id and the
  router port owners, returns N ports that each have a record in the store,
  \<^verbatim>\<open>create_router_assoc\<close> succeeds; its effect is that of one transaction of N set
  commands; and afterwards the record of each of the N ports carries the key
  \<^verbatim>\<open>neutron_bgpvpn:vni\<close> with the value \<^verbatim>\<open>str(bgpvpn.get('vni'))\<close> and the key
  \<^verbatim>\<open>neutron_bgpvpn:as\<close> with the value \<^verbatim>\<open>str\<close> of the configured AS number.
\<close>

theorem create_router_assoc_annotates_ports:
  assumes "py_getitem info ''context'' = Inr context"
    and "py_getitem info ''router_association'' = Inr router_assoc"
    and "py_getitem info ''bgpvpn'' = Inr bgpvpn"
    and "py_getitem router_assoc ''router_id'' = Inr router_id"
    and "py_get bgpvpn ''vni'' = Inr vni"
    and "get_ports env context
           (PDict [(''device_id'', PList [router_id]), (''device_owner'', ROUTER_PORT_OWNERS env)])
         = Inr router_ports"
    and "\<forall>iface\<in>set router_ports. \<exists>port row.
           py_getitem iface ''id'' = Inr port \<and> lsp_get nb port = Inr row"
  shows "\<exists>nb'. create_router_assoc env (Some nb) info = Inr nb' \<and>
     (\<exists>port_ids. length port_ids = length router_ports \<and>
        transaction nb
          (map (\<lambda>port_id. Db_set ''Logical_Switch_Port'' port_id ''external_ids''
                  [OVN_EVPN_VNI_EXT_ID_KEY \<mapsto> py_str vni,
                   OVN_EVPN_AS_EXT_ID_KEY \<mapsto> py_str (bgp_as env)]) port_ids) = Inr nb') \<and>
     (\<forall>iface\<in>set router_ports. \<exists>port row.
        py_getitem iface ''id'' = Inr port \<and> lsp_get nb' port = Inr row \<and>
        external_ids row OVN_EVPN_VNI_EXT_ID_KEY = Some (py_str vni) \<and>
        external_ids row OVN_EVPN_AS_EXT_ID_KEY = Some (py_str (bgp_as env)))"
proof -
  let ?ids = "[OVN_EVPN_VNI_EXT_ID_KEY \<mapsto> py_str vni,
               OVN_EVPN_AS_EXT_ID_KEY \<mapsto> py_str (bgp_as env)]"
  from resolves_exists [OF assms(7)] obtain us where
    us: "list_all2 (resolves nb) router_ports us" by blast
  let ?nb' = "map (annotate us ?ids) nb"
  have ports: "get_ports env context (router_port_filters env router_id) = Inr router_ports"
    using assms(6) by (simp add: router_port_filters_def)
  have run: "create_router_assoc env (Some nb) info = Inr ?nb'"
    by (rule create_router_assoc_ok [OF assms(1-5) ports us])
  have len: "length us = length router_ports"
    using us by (simp add: list_all2_lengthD)
  have txn: "transaction nb
      (map (\<lambda>port_id. Db_set ''Logical_Switch_Port'' port_id ''external_ids'' ?ids) us) = Inr ?nb'"
    by (rule transaction_db_set [OF resolved_subset [OF us]])
  have rows: "\<exists>port row. py_getitem iface ''id'' = Inr port \<and> lsp_get ?nb' port = Inr row \<and>
        external_ids row OVN_EVPN_VNI_EXT_ID_KEY = Some (py_str vni) \<and>
        external_ids row OVN_EVPN_AS_EXT_ID_KEY = Some (py_str (bgp_as env))"
    if "iface \<in> set router_ports" for iface
  proof -
    from annotated_row [OF us that, of ?ids] obtain port row where
      "py_getitem iface ''id'' = Inr port"
      "lsp_get ?nb' port = Inr (row\<lparr>external_ids := external_ids row ++ ?ids\<rparr>)" by blast
    then show ?thesis by (simp add: evpn_keys_distinct)
  qed
  from run len txn rows show ?thesis by blast
qed

lemma example_create_info_items:
  "py_getitem example_create_info ''context'' = Inr (PStr ''admin'')"
  "py_getitem example_create_info ''router_association'' = Inr example_router_assoc"
  "py_getitem example_create_info ''bgpvpn'' = Inr example_bgpvpn"
  by (simp_all add: example_create_info_def)

lemma example_router_id:
  "py_getitem example_router_assoc ''router_id'' = Inr (PStr ''router-1'')"
  by (simp add: example_router_assoc_def)

lemma example_vni: "py_get example_bgpvpn ''vni'' = Inr (PInt 1000)"
  by (simp add: example_bgpvpn_def)

lemma example_get_ports:
  "get_ports example_env (PStr ''admin'')
     (PDict [(''device_id'', PList [PStr ''router-1'']),
             (''device_owner'', ROUTER_PORT_OWNERS example_env)]) = Inr example_ports"
  by (simp add: example_env_def)

lemma example_rows:
  "\<forall>iface\<in>set example_ports. \<exists>port row.
     py_getitem iface ''id'' = Inr port \<and> lsp_get example_nb port = Inr row"
  by (simp add: example_ports_def example_nb_def)

lemma example_annotated_rows:
  "\<forall>iface\<in>set example_ports. \<exists>port row.
     py_getitem iface ''id'' = Inr port \<and> lsp_get example_annotated_nb port = Inr row"
  by (simp add: example_ports_def example_annotated_nb_def)

lemma example_delete_info_items:
  "py_getitem example_delete_info ''context'' = Inr (PStr ''admin'')"
  "py_getitem example_delete_info ''router_association'' = Inr example_router_assoc"
  by (simp_all add: example_delete_info_def)

lemma example_strs:
  "py_str (PInt 1000) = ''1000''"
  "py_str (PInt 64512) = ''64512''"
  by (simp_all add: py_str_def str_int_def digit_char_def)

lemma example_bgp_as: "bgp_as example_env = PInt 64512"
  by (simp add: example_env_def)

theorem create_router_assoc_annotates_ports_witness:
  "\<exists>nb'. create_router_assoc example_env (Some example_nb) example_create_info = Inr nb' \<and>
     (\<exists>row. lsp_get nb' (PStr ''port-a'') = Inr row \<and>
        external_ids row ''neutron_bgpvpn:vni'' = Some ''1000'' \<and>
        external_ids row ''neutron_bgpvpn:as'' = Some ''64512'') \<and>
     (\<exists>row. lsp_get nb' (PStr ''port-b'') = Inr row \<and>
        external_ids row ''neutron_bgpvpn:vni'' = Some ''1000'' \<and>
        external_ids row ''neutron_bgpvpn:as'' = Some ''64512'')"
proof -
  have as: "bgp_as example_env = PInt 64512"
    by (simp add: example_env_def)
  from create_router_assoc_annotates_ports [OF example_create_info_items example_router_id example_vni
      example_get_ports example_rows]
  obtain nb' where run:
    "create_router_assoc example_env (Some example_nb) example_create_info = Inr nb'"
    and rows: "\<forall>iface\<in>set example_ports. \<exists>port row.
        py_getitem iface ''id'' = Inr port \<and> lsp_get nb' port = Inr row \<and>
        external_ids row OVN_EVPN_VNI_EXT_ID_KEY = Some (py_str (PInt 1000)) \<and>
        external_ids row OVN_EVPN_AS_EXT_ID_KEY = Some (py_str (bgp_as example_env))"
    by blast
  from rows have
    "(\<exists>row. lsp_get nb' (PStr ''port-a'') = Inr row \<and>
        external_ids row ''neutron_bgpvpn:vni'' = Some ''1000'' \<and>
        external_ids row ''neutron_bgpvpn:as'' = Some ''64512'') \<and>
    (\<exists>row. lsp_get nb' (PStr ''port-b'') = Inr row \<and>
        external_ids row ''neutron_bgpvpn:vni'' = Some ''1000'' \<and>
        external_ids row ''neutron_bgpvpn:as'' = Some ''64512'')"
    unfolding as example_strs OVN_EVPN_VNI_EXT_ID_KEY_def OVN_EVPN_AS_EXT_ID_KEY_def
    by (simp add: example_ports_def)
  with run show ?thesis by blast
qed

text \<open>
  C3. For every port the same directory lookup returns, \<^verbatim>\<open>delete_router_assoc\<close> removes
  the key \<^verbatim>\<open>neutron_bgpvpn:vni\<close> from the \<^verbatim>\<open>external_ids\<close> of the port's record and leaves
  every other key of that map as it was, the key \<^verbatim>\<open>neutron_bgpvpn:as\<close> among them.
\<close>

theorem delete_router_assoc_removes_vni_only:
  assumes "py_getitem info ''context'' = Inr context"
    and "py_getitem info ''router_association'' = Inr router_assoc"
    and "py_getitem router_assoc ''router_id'' = Inr router_id"
    and "get_ports env context
           (PDict [(''device_id'', PList [router_id]), (''device_owner'', ROUTER_PORT_OWNERS env)])
         = Inr router_ports"
    and "\<forall>iface\<in>set router_ports. \<exists>port row.
           py_getitem iface ''id'' = Inr port \<and> lsp_get nb port = Inr row"
  shows "\<exists>nb'. delete_router_assoc env (Some nb) info = Inr nb' \<and>
     (\<forall>iface\<in>set router_ports. \<exists>port row row'.
        py_getitem iface ''id'' = Inr port \<and>
        lsp_get nb port = Inr row \<and> lsp_get nb' port = Inr row' \<and>
        external_ids row' OVN_EVPN_VNI_EXT_ID_KEY = None \<and>
        external_ids row' OVN_EVPN_AS_EXT_ID_KEY = external_ids row OVN_EVPN_AS_EXT_ID_KEY \<and>
        (\<forall>k. k \<noteq> OVN_EVPN_VNI_EXT_ID_KEY \<longrightarrow> external_ids row' k = external_ids row k))"
proof -
  from resolves_exists [OF assms(5)] obtain us where
    us: "list_all2 (resolves nb) router_ports us" by blast
  let ?nb' = "map (strip_key us OVN_EVPN_VNI_EXT_ID_KEY) nb"
  have ports: "get_ports env context (router_port_filters env router_id) = Inr router_ports"
    using assms(4) by (simp add: router_port_filters_def)
  have run: "delete_router_assoc env (Some nb) info = Inr ?nb'"
    by (rule delete_router_assoc_ok [OF assms(1-3) ports us])
  have rows: "\<exists>port row row'.
        py_getitem iface ''id'' = Inr port \<and>
        lsp_get nb port = Inr row \<and> lsp_get ?nb' port = Inr row' \<and>
        external_ids row' OVN_EVPN_VNI_EXT_ID_KEY = None \<and>
        external_ids row' OVN_EVPN_AS_EXT_ID_KEY = external_ids row OVN_EVPN_AS_EXT_ID_KEY \<and>
        (\<forall>k. k \<noteq> OVN_EVPN_VNI_EXT_ID_KEY \<longrightarrow> external_ids row' k = external_ids row k)"
    if "iface \<in> set router_ports" for iface
  proof -
    from stripped_row [OF us that, of OVN_EVPN_VNI_EXT_ID_KEY] obtain port row where
      "py_getitem iface ''id'' = Inr port" "lsp_get nb port = Inr row"
      "lsp_get ?nb' port =
         Inr (row\<lparr>external_ids := (external_ids row)(OVN_EVPN_VNI_EXT_ID_KEY := None)\<rparr>)"
      by blast
    then show ?thesis using evpn_keys_distinct by auto
  qed
  from run rows show ?thesis by blast
qed

theorem delete_router_assoc_removes_vni_only_witness:
  "\<exists>nb'. delete_router_assoc example_env (Some example_annotated_nb) example_delete_info = Inr nb' \<and>
     (\<exists>row'. lsp_get nb' (PStr ''port-a'') = Inr row' \<and>
        external_ids row' ''neutron_bgpvpn:vni'' = None \<and>
        external_ids row' ''neutron_bgpvpn:as'' = Some ''64512'' \<and>
        external_ids row' ''neutron:cidrs'' = Some ''10.0.0.1/24'')"
proof -
  from delete_router_assoc_removes_vni_only
    [OF example_delete_info_items example_router_id example_get_ports
      example_annotated_rows]
  obtain nb' where run:
    "delete_router_assoc example_env (Some example_annotated_nb) example_delete_info = Inr nb'"
    and rows: "\<forall>iface\<in>set example_ports. \<exists>port row row'.
        py_getitem iface ''id'' = Inr port \<and>
        lsp_get example_annotated_nb port = Inr row \<and> lsp_get nb' port = Inr row' \<and>
        external_ids row' OVN_EVPN_VNI_EXT_ID_KEY = None \<and>
        external_ids row' OVN_EVPN_AS_EXT_ID_KEY = external_ids row OVN_EVPN_AS_EXT_ID_KEY \<and>
        (\<forall>k. k \<noteq> OVN_EVPN_VNI_EXT_ID_KEY \<longrightarrow> external_ids row' k = external_ids row k)"
    by blast
  from rows have
    "\<exists>row'. lsp_get nb' (PStr ''port-a'') = Inr row' \<and>
        external_ids row' ''neutron_bgpvpn:vni'' = None \<and>
        external_ids row' ''neutron_bgpvpn:as'' = Some ''64512'' \<and>
        external_ids row' ''neutron:cidrs'' = Some ''10.0.0.1/24''"
    unfolding OVN_EVPN_VNI_EXT_ID_KEY_def OVN_EVPN_AS_EXT_ID_KEY_def
    by (auto simp: example_ports_def example_annotated_nb_def)
  with run show ?thesis by blast
qed

text \<open>
  C7. \<^verbatim>\<open>create_router_assoc\<close> is idempotent: once the handler has run and left the store
  \<open>nb'\<close>, running it again with the same info, directory and configuration succeeds and
  leaves the store \<open>nb'\<close>, so every port's \<^verbatim>\<open>external_ids\<close> is as after the first run.
\<close>

theorem create_router_assoc_idempotent:
  assumes "create_router_assoc env api info = Inr nb'"
  shows "create_router_assoc env (Some nb') info = Inr nb'"
proof -
  from assms obtain ctx router_assoc bgpvpn router_id vni router_ports us nb where
    a: "py_getitem info ''context'' = Inr ctx"
      "py_getitem info ''router_association'' = Inr router_assoc"
      "py_getitem info ''bgpvpn'' = Inr bgpvpn"
      "py_getitem router_assoc ''router_id'' = Inr router_id"
      "py_get bgpvpn ''vni'' = Inr vni"
      "get_ports env ctx (router_port_filters env router_id) = Inr router_ports"
    and api: "api = Some nb"
    and us: "list_all2 (resolves nb) router_ports us"
    by (rule create_router_assoc_Inr)
  let ?f = "annotate us [OVN_EVPN_VNI_EXT_ID_KEY \<mapsto> py_str vni,
                         OVN_EVPN_AS_EXT_ID_KEY \<mapsto> py_str (bgp_as env)]"
  have once: "nb' = map ?f nb"
    using assms create_router_assoc_ok [OF a us] api by simp
  have "resolves (map ?f nb) = resolves nb"
    by (intro ext) (simp add: resolves_map)
  with us have "list_all2 (resolves (map ?f nb)) router_ports us" by simp
  from create_router_assoc_ok [OF a this]
  have twice: "create_router_assoc env (Some (map ?f nb)) info = Inr (map ?f (map ?f nb))" .
  have idem: "map ?f (map ?f nb) = map ?f nb"
    by (simp only: map_map comp_def annotate_idem)
  show ?thesis
    unfolding once using twice by (simp only: idem)
qed

lemma example_create_runs:
  "\<exists>nb'. create_router_assoc example_env (Some example_nb) example_create_info = Inr nb'"
proof -
  from resolves_exists [OF example_rows] obtain us where
    us: "list_all2 (resolves example_nb) example_ports us" by blast
  have "get_ports example_env (PStr ''admin'')
      (router_port_filters example_env (PStr ''router-1'')) = Inr example_ports"
    using example_get_ports by (simp add: router_port_filters_def)
  from create_router_assoc_ok [OF example_create_info_items example_router_id example_vni this us]
  show ?thesis by blast
qed

theorem create_router_assoc_idempotent_witness:
  "\<exists>nb'. create_router_assoc example_env (Some example_nb) example_create_info = Inr nb' \<and>
     create_router_assoc example_env (Some nb') example_create_info = Inr nb'"
proof -
  from example_create_runs obtain nb' where
    run: "create_router_assoc example_env (Some example_nb) example_create_info = Inr nb'"
    by blast
  from create_router_assoc_idempotent [OF run] run show ?thesis by blast
qed

text \<open>
  C10. Neither \<^verbatim>\<open>create_router_assoc\<close> nor \<^verbatim>\<open>add_router_interface\<close> checks that the BGPVPN
  has a VNI: when the \<^verbatim>\<open>vni\<close> key is absent or holds \<^verbatim>\<open>None\<close>, both go on and write the
  string \<^verbatim>\<open>None\<close> as the value of \<^verbatim>\<open>neutron_bgpvpn:vni\<close>.
\<close>

theorem handlers_write_None_without_vni:
  assumes "map_of d ''vni'' = None \<or> map_of d ''vni'' = Some PNone"
    and "py_getitem info ''context'' = Inr context"
    and "py_getitem info ''router_association'' = Inr router_assoc"
    and "py_getitem info ''bgpvpn'' = Inr (PDict d)"
    and "py_getitem router_assoc ''router_id'' = Inr router_id"
    and "get_ports env context
           (PDict [(''device_id'', PList [router_id]), (''device_owner'', ROUTER_PORT_OWNERS env)])
         = Inr router_ports"
    and "\<forall>iface\<in>set router_ports. \<exists>port row.
           py_getitem iface ''id'' = Inr port \<and> lsp_get nb port = Inr row"
    and "py_getitem info' ''port_id'' = Inr port_id"
    and "py_getitem info' ''bgpvpn'' = Inr (PDict d)"
    and "lsp_get nb port_id = Inr row"
  shows "(\<exists>nb'. create_router_assoc env (Some nb) info = Inr nb' \<and>
       (\<forall>iface\<in>set router_ports. \<exists>port row'.
          py_getitem iface ''id'' = Inr port \<and> lsp_get nb' port = Inr row' \<and>
          external_ids row' OVN_EVPN_VNI_EXT_ID_KEY = Some ''None'')) \<and>
     (\<exists>nb' row'. add_router_interface env (Some nb) info' = Inr nb' \<and>
          lsp_get nb' port_id = Inr row' \<and>
          external_ids row' OVN_EVPN_VNI_EXT_ID_KEY = Some ''None'')"
proof -
  let ?ids = "[OVN_EVPN_VNI_EXT_ID_KEY \<mapsto> py_str PNone,
               OVN_EVPN_AS_EXT_ID_KEY \<mapsto> py_str (bgp_as env)]"
  have vni: "py_get (PDict d) ''vni'' = Inr PNone"
    using assms(1) by auto
  have str: "py_str PNone = ''None''"
    by (simp add: py_str_def)
  from resolves_exists [OF assms(7)] obtain us where
    us: "list_all2 (resolves nb) router_ports us" by blast
  have ports: "get_ports env context (router_port_filters env router_id) = Inr router_ports"
    using assms(6) by (simp add: router_port_filters_def)
  have run: "create_router_assoc env (Some nb) info = Inr (map (annotate us ?ids) nb)"
    by (rule create_router_assoc_ok [OF assms(2-5) vni ports us])
  have rows: "\<exists>port row'. py_getitem iface ''id'' = Inr port \<and>
        lsp_get (map (annotate us ?ids) nb) port = Inr row' \<and>
        external_ids row' OVN_EVPN_VNI_EXT_ID_KEY = Some ''None''"
    if "iface \<in> set router_ports" for iface
  proof -
    from annotated_row [OF us that, of ?ids] obtain port r where
      "py_getitem iface ''id'' = Inr port"
      "lsp_get (map (annotate us ?ids) nb) port = Inr (r\<lparr>external_ids := external_ids r ++ ?ids\<rparr>)"
      by blast
    then show ?thesis by (simp add: evpn_keys_distinct str)
  qed
  have add: "add_router_interface env (Some nb) info' = Inr (map (annotate [uuid row] ?ids) nb)"
    by (rule add_router_interface_ok [OF assms(8,9) vni assms(10)])
  have "lsp_get (map (annotate [uuid row] ?ids) nb) port_id = Inr (annotate [uuid row] ?ids row)"
    using assms(10) by (simp add: lsp_get_map)
  then have "\<exists>row'. lsp_get (map (annotate [uuid row] ?ids) nb) port_id = Inr row' \<and>
      external_ids row' OVN_EVPN_VNI_EXT_ID_KEY = Some ''None''"
    by (simp add: annotate_def evpn_keys_distinct str)
  with run rows add show ?thesis by blast
qed

lemma no_vni_items:
  "map_of [(''id'', PStr ''bgpvpn-2''), (''type'', PStr ''l3''), (''vni'', PNone)] ''vni'' = None \<or>
   map_of [(''id'', PStr ''bgpvpn-2''), (''type'', PStr ''l3''), (''vni'', PNone)] ''vni'' = Some PNone"
  "py_getitem example_create_info_no_vni ''context'' = Inr (PStr ''admin'')"
  "py_getitem example_create_info_no_vni ''router_association'' = Inr example_router_assoc"
  "py_getitem example_create_info_no_vni ''bgpvpn'' =
     Inr (PDict [(''id'', PStr ''bgpvpn-2''), (''type'', PStr ''l3''), (''vni'', PNone)])"
  "py_getitem example_add_info_no_vni ''port_id'' = Inr (PStr ''port-c'')"
  "py_getitem example_add_info_no_vni ''bgpvpn'' =
     Inr (PDict [(''id'', PStr ''bgpvpn-2''), (''type'', PStr ''l3''), (''vni'', PNone)])"
  "lsp_get example_nb (PStr ''port-c'') =
     Inr \<lparr>uuid = ''uuid-c'', name = ''port-c'', external_ids = Map.empty\<rparr>"
  by (simp_all add: example_create_info_no_vni_def example_add_info_no_vni_def
      example_bgpvpn_no_vni_def example_nb_def)

theorem handlers_write_None_without_vni_witness:
  "(\<exists>nb'. create_router_assoc example_env (Some example_nb) example_create_info_no_vni = Inr nb' \<and>
      (\<exists>row'. lsp_get nb' (PStr ''port-a'') = Inr row' \<and>
         external_ids row' ''neutron_bgpvpn:vni'' = Some ''None'')) \<and>
   (\<exists>nb' row'. add_router_interface example_env (Some example_nb) example_add_info_no_vni = Inr nb' \<and>
      lsp_get nb' (PStr ''port-c'') = Inr row' \<and>
      external_ids row' ''neutron_bgpvpn:vni'' = Some ''None'')"
proof -
  note inst = handlers_write_None_without_vni
    [OF no_vni_items(1,2,3,4) example_router_id example_get_ports example_rows
     no_vni_items(5,6,7)]
  from inst obtain nb' where run:
    "create_router_assoc example_env (Some example_nb) example_create_info_no_vni = Inr nb'"
    and rows: "\<forall>iface\<in>set example_ports. \<exists>port row'.
          py_getitem iface ''id'' = Inr port \<and> lsp_get nb' port = Inr row' \<and>
          external_ids row' OVN_EVPN_VNI_EXT_ID_KEY = Some ''None''"
    by blast
  from rows have a: "\<exists>row'. lsp_get nb' (PStr ''port-a'') = Inr row' \<and>
         external_ids row' ''neutron_bgpvpn:vni'' = Some ''None''"
    unfolding OVN_EVPN_VNI_EXT_ID_KEY_def by (simp add: example_ports_def)
  from inst have b: "\<exists>nb' row'.
      add_router_interface example_env (Some example_nb) example_add_info_no_vni = Inr nb' \<and>
      lsp_get nb' (PStr ''port-c'') = Inr row' \<and>
      external_ids row' ''neutron_bgpvpn:vni'' = Some ''None''"
    unfolding OVN_EVPN_VNI_EXT_ID_KEY_def by blast
  from run a b show ?thesis by blast
qed

section \<open>The worker loop\<close>

lemma dequeued_append: "dequeued (a @ b) = dequeued a @ dequeued b"
  by (induction a rule: dequeued.induct) auto

lemma invoked_append: "invoked (a @ b) = invoked a @ invoked b"
  by (induction a rule: invoked.induct) auto

lemma serial_append: "serial a \<Longrightarrow> serial b \<Longrightarrow> serial (a @ b)"
  by (induction a rule: serial.induct) auto

lemma loop_body_command:
  assumes "requests s = r # rest" "command_request r"
  shows "\<exists>tr. turn r tr \<and> trace (loop_body env s) = trace s @ tr"
    and "requests (loop_body env s) = rest"
    and "helper_thread (loop_body env s) = helper_thread s"
    and "ovn_nbdb (loop_body env s) = ovn_nbdb s"
    and "ovn_nbdb_api (loop_body env s) = execute env (ovn_nbdb_api s) r"
  using assms
  by (auto simp: loop_body_def try_body_def command_request_def handler_call_def turn_def Let_def
      execute_def split: sum.splits option.splits pyval.splits)


lemma served_refl: "served env s [] s"
  by (simp add: served_def)

lemma served_trans:
  assumes "served env s rs s1" "served env s1 rs' s2"
  shows "served env s (rs @ rs') s2"
proof -
  from assms(1) obtain ts where
    a: "trace s1 = trace s @ concat ts" "list_all2 turn rs ts"
      "ovn_nbdb_api s1 = foldl (execute env) (ovn_nbdb_api s) rs"
    by (auto simp: served_def)
  from assms(2) obtain ts' where
    b: "trace s2 = trace s1 @ concat ts'" "list_all2 turn rs' ts'"
      "ovn_nbdb_api s2 = foldl (execute env) (ovn_nbdb_api s1) rs'"
    by (auto simp: served_def)
  have "trace s2 = trace s @ concat (ts @ ts')" using a(1) b(1) by simp
  moreover have "list_all2 turn (rs @ rs') (ts @ ts')"
    using a(2) b(2) by (rule list_all2_appendI)
  moreover have "ovn_nbdb_api s2 = foldl (execute env) (ovn_nbdb_api s) (rs @ rs')"
    using a(3) b(3) by simp
  ultimately show ?thesis unfolding served_def by blast
qed

lemma served_loop_body:
  assumes "requests s = r # rest" "command_request r"
  shows "served env s [r] (loop_body env s)"
proof -
  from loop_body_command(1) [OF assms, of env] obtain tr where
    tr: "turn r tr" "trace (loop_body env s) = trace s @ tr" by blast
  have "trace (loop_body env s) = trace s @ concat [tr]" using tr(2) by simp
  moreover have "list_all2 turn [r] [tr]" using tr(1) by simp
  moreover have "ovn_nbdb_api (loop_body env s) = foldl (execute env) (ovn_nbdb_api s) [r]"
    using loop_body_command(5) [OF assms, of env] by simp
  ultimately show ?thesis unfolding served_def by blast
qed

lemma served_add_request: "served env s rs s' \<Longrightarrow> served env s rs (add_request r s')"
  by (simp add: served_def add_request_def)

lemma run_schedule_fifo:
  assumes "helper_thread s = Running"
    and "\<forall>r\<in>set (requests s @ enqueued sched). command_request r"
  shows "\<exists>rs. served env s rs (run_schedule env sched s) \<and>
           rs @ requests (run_schedule env sched s) = requests s @ enqueued sched \<and>
           helper_thread (run_schedule env sched s) = Running"
  using assms
proof (induction sched arbitrary: s)
  case Nil
  then show ?case using served_refl by auto
next
  case (Cons a sched)
  show ?case
  proof (cases a)
    case (Add_request r)
    let ?s = "add_request r s"
    have 1: "helper_thread ?s = Running"
      using Cons.prems by (simp add: add_request_def)
    have 2: "\<forall>r\<in>set (requests ?s @ enqueued sched). command_request r"
      using Cons.prems Add_request by (auto simp: add_request_def)
    from Cons.IH [OF 1 2] obtain rs where
      a: "served env ?s rs (run_schedule env sched ?s)"
      and b: "rs @ requests (run_schedule env sched ?s) = requests ?s @ enqueued sched"
      and c: "helper_thread (run_schedule env sched ?s) = Running" by blast
    have "served env s [] ?s" by (simp add: served_def add_request_def)
    from served_trans [OF this a] have "served env s rs (run_schedule env sched ?s)" by simp
    with b c Add_request show ?thesis by (auto simp: add_request_def)
  next
    case Worker_turn
    show ?thesis
    proof (cases "requests s")
      case Nil
      then have same: "loop_body env s = s" by (simp add: loop_body_def)
      from Cons.IH [of s] Cons.prems Worker_turn same show ?thesis by simp
    next
      case (Cons r rest)
      let ?s = "loop_body env s"
      have cr: "command_request r" using Cons.prems(2) Cons by simp
      note lb = loop_body_command [OF Cons cr, of env]
      have 1: "helper_thread ?s = Running" using lb(3) Cons.prems(1) by simp
      have 2: "\<forall>r\<in>set (requests ?s @ enqueued sched). command_request r"
        using Cons.prems(2) Cons lb(2) Worker_turn by auto
      from Cons.IH [OF 1 2] obtain rs where
        a: "served env ?s rs (run_schedule env sched ?s)"
        and b: "rs @ requests (run_schedule env sched ?s) = requests ?s @ enqueued sched"
        and c: "helper_thread (run_schedule env sched ?s) = Running" by blast
      from served_trans [OF served_loop_body [OF Cons cr] a]
      have "served env s ([r] @ rs) (run_schedule env sched ?s)" .
      with b c lb(2) Cons Worker_turn Cons.prems(1) show ?thesis by auto
    qed
  qed
qed

lemma request_handler_drains:
  assumes "helper_thread s = Running"
    and "\<forall>r\<in>set (requests s). command_request r"
  shows "served env s (requests s) (request_handler env s) \<and>
         requests (request_handler env s) = [] \<and>
         helper_thread (request_handler env s) = Running \<and>
         ovn_nbdb (request_handler env s) = ovn_nbdb s"
  using assms
proof (induction "requests s" arbitrary: s)
  case Nil
  then show ?case
    by (simp add: request_handler.simps [of env s] served_refl)
next
  case (Cons r rest)
  let ?s = "loop_body env s"
  have q: "requests s = r # rest" using Cons.hyps(2) by simp
  have cr: "command_request r" using Cons.prems(2) q by simp
  note lb = loop_body_command [OF q cr, of env]
  have step: "request_handler env s = request_handler env ?s"
    using Cons.prems(1) q by (simp add: request_handler.simps [of env s])
  have 0: "rest = requests ?s" using lb(2) by simp
  have 1: "helper_thread ?s = Running" using lb(3) Cons.prems(1) by simp
  have 2: "\<forall>r\<in>set (requests ?s). command_request r"
    using Cons.prems(2) q lb(2) by simp
  from Cons.hyps(1) [OF 0 1 2] have
    ih: "served env ?s (requests ?s) (request_handler env ?s)"
      "requests (request_handler env ?s) = []"
      "helper_thread (request_handler env ?s) = Running"
      "ovn_nbdb (request_handler env ?s) = ovn_nbdb ?s" by simp_all
  from served_trans [OF served_loop_body [OF q cr] ih(1)]
  have "served env s (requests s) (request_handler env ?s)" using q lb(2) by simp
  with ih lb(4) show ?case unfolding step by simp
qed

lemma handler_needs_api:
  "map_of bgpvpn_request_func_maps t = Some h \<Longrightarrow> h env None info \<noteq> Inr nb'"
  by (auto simp: bgpvpn_request_func_maps_def create_router_assoc_def delete_router_assoc_def
      add_router_interface_def and_then_def execute_commands_def Let_def
      split: if_splits sum.splits)

lemma func_maps_get_Some:
  "func_maps_get v = Inr (Some (t, h)) \<Longrightarrow> v = PStr t \<and> map_of bgpvpn_request_func_maps t = Some h"
  by (cases v) (auto split: option.splits)

lemma loop_body_api:
  "(ovn_nbdb_api (loop_body env s) = None) = (ovn_nbdb_api s = None)"
proof (cases "requests s")
  case Nil
  then show ?thesis by (simp add: loop_body_def)
next
  case (Cons r rest)
  show ?thesis
  proof (cases "ovn_nbdb_api s")
    case None
    then show ?thesis
      using Cons
      by (auto simp: loop_body_def try_body_def Let_def
          dest!: func_maps_get_Some dest: handler_needs_api
          split: sum.splits option.splits prod.splits)
  next
    case (Some nb)
    then show ?thesis
      using Cons
      by (auto simp: loop_body_def try_body_def Let_def
          split: sum.splits option.splits pyval.splits prod.splits)
  qed
qed

lemma request_handler_api:
  "(ovn_nbdb_api (request_handler env s) = None) = (ovn_nbdb_api s = None)"
proof (induction env s rule: request_handler.induct)
  case (1 env s)
  show ?case
  proof (cases "helper_thread s \<noteq> Running \<or> requests s = []")
    case True
    then show ?thesis by (simp add: request_handler.simps [of env s])
  next
    case False
    then have "request_handler env s = request_handler env (loop_body env s)"
      by (simp add: request_handler.simps [of env s])
    with 1 [OF False] show ?thesis by (simp add: loop_body_api)
  qed
qed

lemma loop_body_crash:
  assumes "requests s = r # rest"
    and "py_getitem r ''type'' = Inl e \<or>
         (py_getitem r ''type'' = Inr t \<and> func_maps_get t = Inl e)"
  shows "helper_thread (loop_body env s) = Crashed e"
  using assms by (cases t) (auto simp: loop_body_def Let_def)

lemma loop_body_exit:
  assumes "requests s = x # later" "py_getitem x ''type'' = Inr (PStr REQ_TYPE_EXIT)"
  shows "loop_body env s =
     s\<lparr>requests := later, trace := trace s @ [Dequeued x], helper_thread := Exited\<rparr>"
  using assms by (simp add: loop_body_def Let_def)

lemma request_handler_stopped:
  "helper_thread s \<noteq> Running \<Longrightarrow> request_handler env s = s"
  by (simp add: request_handler.simps [of env s])

lemma request_handler_exit:
  assumes "helper_thread s = Running"
    and "requests s = q @ x # later"
    and "\<forall>r\<in>set q. command_request r"
    and "py_getitem x ''type'' = Inr (PStr REQ_TYPE_EXIT)"
  shows "\<exists>s1. served env s q s1 \<and>
           request_handler env s =
             s1\<lparr>requests := later, trace := trace s1 @ [Dequeued x], helper_thread := Exited\<rparr> \<and>
           ovn_nbdb s1 = ovn_nbdb s"
  using assms
proof (induction q arbitrary: s)
  case Nil
  then have q: "requests s = x # later" by simp
  have "request_handler env s = request_handler env (loop_body env s)"
    using Nil.prems(1) q by (simp add: request_handler.simps [of env s])
  also have "\<dots> = loop_body env s"
    by (rule request_handler_stopped) (simp add: loop_body_exit [OF q Nil.prems(4)])
  finally show ?case
    using served_refl [of env s] by (auto simp: loop_body_exit [OF q Nil.prems(4)])
next
  case (Cons r q)
  let ?s = "loop_body env s"
  have rq: "requests s = r # (q @ x # later)" using Cons.prems(2) by simp
  have cr: "command_request r" using Cons.prems(3) by simp
  note lb = loop_body_command [OF rq cr, of env]
  have step: "request_handler env s = request_handler env ?s"
    using Cons.prems(1) rq by (simp add: request_handler.simps [of env s])
  have 1: "helper_thread ?s = Running" using lb(3) Cons.prems(1) by simp
  have 3: "\<forall>r\<in>set q. command_request r" using Cons.prems(3) by simp
  from Cons.IH [OF 1 lb(2) 3 Cons.prems(4)] obtain s1 where
    a: "served env ?s q s1"
    and b: "request_handler env ?s =
       s1\<lparr>requests := later, trace := trace s1 @ [Dequeued x], helper_thread := Exited\<rparr>"
    and c: "ovn_nbdb s1 = ovn_nbdb ?s" by blast
  from served_trans [OF served_loop_body [OF rq cr] a] have "served env s (r # q) s1" by simp
  with b c lb(4) step show ?case by auto
qed

lemma turns_trace:
  "list_all2 turn rs turns \<Longrightarrow>
   serial (concat turns) \<and> dequeued (concat turns) = rs \<and>
   invoked (concat turns) = concat (map handler_call rs)"
  by (induction rs turns rule: list_all2_induct)
     (auto simp: turn_def serial_append dequeued_append invoked_append)

lemma example_helper_fields:
  "requests example_helper = []"
  "helper_thread example_helper = Running"
  "ovn_nbdb example_helper = Some True"
  "ovn_nbdb_api example_helper = Some example_nb"
  "trace example_helper = []"
  by (simp_all add: example_helper_def post_fork_initialize_def new_helper_def)

lemma example_requests_are_commands:
  "command_request example_create_request"
  "command_request example_failing_request"
  "command_request example_add_request"
  "command_request example_unknown_request"
  by (simp_all add: command_request_def example_create_request_def example_failing_request_def
      example_add_request_def example_unknown_request_def REQ_TYPE_EXIT_def)

lemma example_handler_calls:
  "handler_call example_create_request = [(''create_router_assoc'', example_create_info)]"
  "handler_call example_failing_request = [(''create_router_assoc'', example_failing_info)]"
  "handler_call example_add_request = [(''add_router_interface'', example_add_info)]"
  "handler_call example_unknown_request = []"
  by (simp_all add: handler_call_def example_create_request_def example_failing_request_def
      example_add_request_def example_unknown_request_def bgpvpn_request_func_maps_def
      REQ_TYPE_CREATE_ROUTER_ASSOC_def REQ_TYPE_DELETE_ROUTER_ASSOC_def
      REQ_TYPE_ADD_ROUTER_INTERFACE_def)

lemma example_handlers:
  "map_of bgpvpn_request_func_maps ''create_router_assoc'' = Some create_router_assoc"
  "map_of bgpvpn_request_func_maps ''add_router_interface'' = Some add_router_interface"
  by (simp_all add: bgpvpn_request_func_maps_def REQ_TYPE_CREATE_ROUTER_ASSOC_def
      REQ_TYPE_DELETE_ROUTER_ASSOC_def REQ_TYPE_ADD_ROUTER_INTERFACE_def)

lemma example_create_result:
  "create_router_assoc example_env (Some example_nb) example_create_info
     = Inr example_annotated_nb"
proof -
  have us: "list_all2 (resolves example_nb) example_ports [''uuid-a'', ''uuid-b'']"
    by (simp add: resolves_def example_ports_def example_nb_def)
  have ports: "get_ports example_env (PStr ''admin'')
      (router_port_filters example_env (PStr ''router-1'')) = Inr example_ports"
    using example_get_ports by (simp add: router_port_filters_def)
  have "map (annotate [''uuid-a'', ''uuid-b'']
          [OVN_EVPN_VNI_EXT_ID_KEY \<mapsto> ''1000'', OVN_EVPN_AS_EXT_ID_KEY \<mapsto> ''64512''])
          example_nb = example_annotated_nb"
    by (simp add: annotate_def example_nb_def example_annotated_nb_def
        OVN_EVPN_VNI_EXT_ID_KEY_def OVN_EVPN_AS_EXT_ID_KEY_def)
  with create_router_assoc_ok [OF example_create_info_items example_router_id example_vni
      ports us]
  show ?thesis by (simp add: example_strs example_bgp_as)
qed

lemma example_add_info_items:
  "py_getitem example_add_info ''port_id'' = Inr (PStr ''port-c'')"
  "py_getitem example_add_info ''bgpvpn'' = Inr example_bgpvpn"
  by (simp_all add: example_add_info_def)

lemma example_add_result:
  "add_router_interface example_env (Some example_annotated_nb) example_add_info
     = Inr example_final_nb"
proof -
  have row: "lsp_get example_annotated_nb (PStr ''port-c'') =
      Inr \<lparr>uuid = ''uuid-c'', name = ''port-c'', external_ids = Map.empty\<rparr>"
    by (simp add: example_annotated_nb_def)
  have "map (annotate [''uuid-c'']
          [OVN_EVPN_VNI_EXT_ID_KEY \<mapsto> ''1000'', OVN_EVPN_AS_EXT_ID_KEY \<mapsto> ''64512''])
          example_annotated_nb = example_final_nb"
    by (simp add: annotate_def example_final_nb_def example_annotated_nb_def
        OVN_EVPN_VNI_EXT_ID_KEY_def OVN_EVPN_AS_EXT_ID_KEY_def)
  with add_router_interface_ok [OF example_add_info_items example_vni row, of example_env]
  show ?thesis by (simp add: example_strs example_bgp_as)
qed

lemma example_add_result_fresh:
  "add_router_interface example_env (Some example_nb) example_add_info
     = Inr example_nb_with_port_c"
proof -
  have row: "lsp_get example_nb (PStr ''port-c'') =
      Inr \<lparr>uuid = ''uuid-c'', name = ''port-c'', external_ids = Map.empty\<rparr>"
    by (simp add: example_nb_def)
  have "map (annotate [''uuid-c'']
          [OVN_EVPN_VNI_EXT_ID_KEY \<mapsto> ''1000'', OVN_EVPN_AS_EXT_ID_KEY \<mapsto> ''64512''])
          example_nb = example_nb_with_port_c"
    by (simp add: annotate_def example_nb_with_port_c_def example_nb_def
        OVN_EVPN_VNI_EXT_ID_KEY_def OVN_EVPN_AS_EXT_ID_KEY_def)
  with add_router_interface_ok [OF example_add_info_items example_vni row, of example_env]
  show ?thesis by (simp add: example_strs example_bgp_as)
qed

lemma example_failing_run:
  "create_router_assoc example_env (Some example_nb) example_failing_info
     = Inl (RowNotFound ''port-z'')"
  by (simp add: create_router_assoc_def and_then_def example_failing_info_def
      example_bgpvpn_def router_port_filters_def example_env_def example_nb_def
      execute_commands_def)

lemma example_executes:
  "execute example_env (Some example_nb) example_create_request = Some example_annotated_nb"
  "execute example_env api example_unknown_request = api"
  "execute example_env (Some example_annotated_nb) example_add_request = Some example_final_nb"
  "execute example_env (Some example_nb) example_failing_request = Some example_nb"
  "execute example_env (Some example_nb) example_add_request = Some example_nb_with_port_c"
  by (simp_all add: execute_def example_handler_calls example_handlers example_create_result
      example_add_result example_add_result_fresh example_failing_run)

text \<open>
  C1. Whatever the interleaving of the producers' \<^verbatim>\<open>add_request\<close> calls with the turns of
  the worker, once the worker has run until it waits on the empty queue the trace has
  grown by one complete turn for each command request, in the order the requests were put
  on the queue; a turn takes its request from the queue, calls the handler registered for
  it, and is finished before the next request is taken. The store is the one left by
  executing the handlers one after the other in that order, each on the store the one
  before it left. The queue is empty and the worker is still running.
\<close>

theorem worker_serves_requests_in_fifo_order:
  assumes "helper_thread s = Running"
    and "requests s = []"
    and "\<forall>r\<in>set (enqueued sched). command_request r"
  shows "\<exists>turns.
     trace (request_handler env (run_schedule env sched s)) = trace s @ concat turns \<and>
     list_all2 turn (enqueued sched) turns \<and>
     serial (concat turns) \<and>
     dequeued (concat turns) = enqueued sched \<and>
     invoked (concat turns) = concat (map handler_call (enqueued sched)) \<and>
     ovn_nbdb_api (request_handler env (run_schedule env sched s)) =
       foldl (execute env) (ovn_nbdb_api s) (enqueued sched) \<and>
     requests (request_handler env (run_schedule env sched s)) = [] \<and>
     helper_thread (request_handler env (run_schedule env sched s)) = Running"
proof -
  let ?s1 = "run_schedule env sched s"
  have wf: "\<forall>r\<in>set (requests s @ enqueued sched). command_request r"
    using assms(2,3) by simp
  from run_schedule_fifo [OF assms(1) wf, of env] obtain rs where
    a: "served env s rs ?s1" and b: "rs @ requests ?s1 = enqueued sched"
    and c: "helper_thread ?s1 = Running" using assms(2) by auto
  have "\<forall>r\<in>set (requests ?s1). command_request r"
    using assms(3) b by (metis Un_iff set_append)
  from request_handler_drains [OF c this, of env] have
    d: "served env ?s1 (requests ?s1) (request_handler env ?s1)"
    and e: "requests (request_handler env ?s1) = []"
      "helper_thread (request_handler env ?s1) = Running" by simp_all
  from served_trans [OF a d] b
  have "served env s (enqueued sched) (request_handler env ?s1)" by simp
  then obtain turns where
    t: "trace (request_handler env ?s1) = trace s @ concat turns"
      "list_all2 turn (enqueued sched) turns"
      "ovn_nbdb_api (request_handler env ?s1) =
         foldl (execute env) (ovn_nbdb_api s) (enqueued sched)"
    unfolding served_def by blast
  from t e turns_trace [OF t(2)] show ?thesis by blast
qed

theorem worker_serves_requests_in_fifo_order_witness:
  "\<exists>turns.
     trace (request_handler example_env
              (run_schedule example_env example_schedule example_helper)) = concat turns \<and>
     list_all2 turn [example_create_request, example_unknown_request, example_add_request]
       turns \<and>
     serial (concat turns) \<and>
     dequeued (concat turns) =
       [example_create_request, example_unknown_request, example_add_request] \<and>
     invoked (concat turns) = [(''create_router_assoc'', example_create_info),
                               (''add_router_interface'', example_add_info)] \<and>
     ovn_nbdb_api (request_handler example_env
              (run_schedule example_env example_schedule example_helper)) =
       Some example_final_nb \<and>
     requests (request_handler example_env
                 (run_schedule example_env example_schedule example_helper)) = [] \<and>
     helper_thread (request_handler example_env
                 (run_schedule example_env example_schedule example_helper)) = Running"
proof -
  have 1: "helper_thread example_helper = Running" "requests example_helper = []"
    by (simp_all add: example_helper_fields)
  have 2: "\<forall>r\<in>set (enqueued example_schedule). command_request r"
    by (simp add: example_schedule_def example_requests_are_commands)
  have 3: "enqueued example_schedule =
      [example_create_request, example_unknown_request, example_add_request]"
    by (simp add: example_schedule_def)
  have 4: "foldl (execute example_env) (ovn_nbdb_api example_helper)
      [example_create_request, example_unknown_request, example_add_request]
        = Some example_final_nb"
    by (simp add: example_helper_fields example_executes)
  have 5: "concat (map handler_call
      [example_create_request, example_unknown_request, example_add_request])
        = [(''create_router_assoc'', example_create_info),
           (''add_router_interface'', example_add_info)]"
    by (simp add: example_handler_calls)
  have 6: "trace example_helper = []"
    by (simp add: example_helper_fields)
  from worker_serves_requests_in_fifo_order [OF 1 2, of example_env]
  show ?thesis
    unfolding 3 4 5 6 by (simp only: append_Nil)
qed

text \<open>
  C4. When the handler of request B raises, whatever the exception, the worker logs it
  and goes on: the thread keeps running, the store is as before, and the next turn takes C
  from the queue, calls its handler and leaves the store that executing C on the
  untouched store gives; the loop continues from there. A request with a string type ends
  the loop exactly when that type is the exit sentinel.
\<close>

theorem failing_handler_does_not_stop_worker:
  assumes "helper_thread s = Running"
    and "requests s = B # C # rest"
    and "py_getitem B ''type'' = Inr (PStr tb)"
    and "map_of bgpvpn_request_func_maps tb = Some hb"
    and "py_getitem B ''info'' = Inr ib"
    and "hb env (ovn_nbdb_api s) ib = Inl e"
    and "command_request C"
    and "helper_thread s0 = Running"
    and "requests s0 = r # rest0"
    and "py_getitem r ''type'' = Inr (PStr t)"
  shows "helper_thread (loop_body env s) = Running \<and>
     requests (loop_body env s) = C # rest \<and>
     ovn_nbdb_api (loop_body env s) = ovn_nbdb_api s \<and>
     trace (loop_body env s) = trace s @ [Dequeued B, Invoked tb ib, LoggedException e] \<and>
     helper_thread (loop_body env (loop_body env s)) = Running \<and>
     requests (loop_body env (loop_body env s)) = rest \<and>
     (\<exists>tr. trace (loop_body env (loop_body env s)) = trace (loop_body env s) @ tr \<and>
        serial tr \<and> dequeued tr = [C] \<and> invoked tr = handler_call C) \<and>
     ovn_nbdb_api (loop_body env (loop_body env s)) = execute env (ovn_nbdb_api s) C \<and>
     request_handler env s = request_handler env (loop_body env (loop_body env s)) \<and>
     (helper_thread (loop_body env s0) = Running) = (t \<noteq> REQ_TYPE_EXIT)"
proof -
  have tb: "tb \<noteq> REQ_TYPE_EXIT"
    using assms(4)
    by (auto simp: bgpvpn_request_func_maps_def REQ_TYPE_EXIT_def
        REQ_TYPE_CREATE_ROUTER_ASSOC_def REQ_TYPE_DELETE_ROUTER_ASSOC_def
        REQ_TYPE_ADD_ROUTER_INTERFACE_def split: if_splits)
  have first: "loop_body env s =
      s\<lparr>requests := C # rest,
        trace := trace s @ [Dequeued B, Invoked tb ib, LoggedException e]\<rparr>"
    using assms(2-6) tb by (simp add: loop_body_def try_body_def Let_def)
  let ?s1 = "loop_body env s"
  have q1: "requests ?s1 = C # rest" by (simp add: first)
  have r1: "helper_thread ?s1 = Running" using assms(1) by (simp add: first)
  have a1: "ovn_nbdb_api ?s1 = ovn_nbdb_api s" by (simp add: first)
  note lb = loop_body_command [OF q1 assms(7), of env]
  have r2: "helper_thread (loop_body env ?s1) = Running" using lb(3) r1 by simp
  have a2: "ovn_nbdb_api (loop_body env ?s1) = execute env (ovn_nbdb_api s) C"
    using lb(5) a1 by simp
  have "request_handler env s = request_handler env ?s1"
    using assms(1,2) by (simp add: request_handler.simps [of env s])
  also have "\<dots> = request_handler env (loop_body env ?s1)"
    using r1 q1 by (simp add: request_handler.simps [of env ?s1])
  finally have loop: "request_handler env s = request_handler env (loop_body env ?s1)" .
  have last: "(helper_thread (loop_body env s0) = Running) = (t \<noteq> REQ_TYPE_EXIT)"
    using assms(8-10)
    by (auto simp: loop_body_def try_body_def Let_def
        split: sum.splits option.splits prod.splits)
  from lb(1) have "\<exists>tr. trace (loop_body env ?s1) = trace ?s1 @ tr \<and>
        serial tr \<and> dequeued tr = [C] \<and> invoked tr = handler_call C"
    by (auto simp: turn_def)
  with first r1 r2 a2 lb(2) loop last show ?thesis by simp
qed

theorem failing_handler_does_not_stop_worker_witness:
  "helper_thread (loop_body example_env example_failing_helper) = Running \<and>
   requests (loop_body example_env example_failing_helper) = [example_add_request] \<and>
   ovn_nbdb_api (loop_body example_env example_failing_helper) = Some example_nb \<and>
   trace (loop_body example_env example_failing_helper) =
     [Dequeued example_failing_request, Invoked ''create_router_assoc'' example_failing_info,
      LoggedException (RowNotFound ''port-z'')] \<and>
   helper_thread (loop_body example_env (loop_body example_env example_failing_helper)) = Running \<and>
   requests (loop_body example_env (loop_body example_env example_failing_helper)) = [] \<and>
   (\<exists>tr. trace (loop_body example_env (loop_body example_env example_failing_helper)) =
           trace (loop_body example_env example_failing_helper) @ tr \<and>
         serial tr \<and> dequeued tr = [example_add_request] \<and>
         invoked tr = [(''add_router_interface'', example_add_info)]) \<and>
   ovn_nbdb_api (loop_body example_env (loop_body example_env example_failing_helper)) =
     Some example_nb_with_port_c"
proof -
  have 1: "helper_thread example_failing_helper = Running"
    and 2: "requests example_failing_helper = example_failing_request # example_add_request # []"
    and 6: "create_router_assoc example_env (ovn_nbdb_api example_failing_helper)
              example_failing_info = Inl (RowNotFound ''port-z'')"
    and 8: "trace example_failing_helper = []"
    and 9: "ovn_nbdb_api example_failing_helper = Some example_nb"
    by (simp_all add: example_failing_helper_def example_helper_fields example_failing_run)
  have 3: "py_getitem example_failing_request ''type'' = Inr (PStr ''create_router_assoc'')"
    and 5: "py_getitem example_failing_request ''info'' = Inr example_failing_info"
    by (simp_all add: example_failing_request_def)
  have 7: "py_getitem (PDict [(''type'', PStr ''exit'')]) ''type'' = Inr (PStr ''exit'')"
    by simp
  have 10: "requests (example_helper\<lparr>requests := [PDict [(''type'', PStr ''exit'')]]\<rparr>)
      = PDict [(''type'', PStr ''exit'')] # []"
     and 11: "helper_thread (example_helper\<lparr>requests := [PDict [(''type'', PStr ''exit'')]]\<rparr>)
      = Running"
    by (simp_all add: example_helper_fields)
  note f = failing_handler_does_not_stop_worker
    [OF 1 2 3 example_handlers(1) 5 6 example_requests_are_commands(3) 11 10 7]
  from f have a:
    "helper_thread (loop_body example_env example_failing_helper) = Running"
    "requests (loop_body example_env example_failing_helper) = [example_add_request]"
    "ovn_nbdb_api (loop_body example_env example_failing_helper) = Some example_nb"
    "trace (loop_body example_env example_failing_helper) =
       [Dequeued example_failing_request, Invoked ''create_router_assoc'' example_failing_info,
        LoggedException (RowNotFound ''port-z'')]"
    "helper_thread (loop_body example_env (loop_body example_env example_failing_helper)) = Running"
    "requests (loop_body example_env (loop_body example_env example_failing_helper)) = []"
    "ovn_nbdb_api (loop_body example_env (loop_body example_env example_failing_helper)) =
       Some example_nb_with_port_c"
    unfolding 8 9 by (simp_all add: example_executes)
  from f have b: "\<exists>tr. trace (loop_body example_env (loop_body example_env example_failing_helper)) =
           trace (loop_body example_env example_failing_helper) @ tr \<and>
         serial tr \<and> dequeued tr = [example_add_request] \<and>
         invoked tr = handler_call example_add_request"
    by (elim conjE)
  from a b show ?thesis
    by (simp only: example_handler_calls simp_thms)
qed

text \<open>
  C5. \<^verbatim>\<open>shutdown\<close> on a running, initialised helper: when the worker has ended, that is,
  when \<^verbatim>\<open>join\<close> returns, the trace has grown by one complete turn for each command request
  that was on the queue, in order, followed by the dequeue of the exit request; the store
  is the one left by executing those requests in order; nothing is left on the queue and
  the connection is still open. \<^verbatim>\<open>shutdown\<close> then returns normally with that state, the
  connection stopped and the API attribute deleted.
\<close>

theorem shutdown_drains_queue:
  assumes "helper_thread s = Running"
    and "\<forall>r\<in>set (requests s). command_request r"
    and "ovn_nbdb s = Some True"
    and "ovn_nbdb_api s = Some nb"
  shows "\<exists>s1 turns.
     request_handler env (add_request (PDict [(''type'', PStr REQ_TYPE_EXIT)]) s) = s1 \<and>
     trace s1 = trace s @ concat turns @ [Dequeued (PDict [(''type'', PStr REQ_TYPE_EXIT)])] \<and>
     list_all2 turn (requests s) turns \<and>
     serial (concat turns) \<and> dequeued (concat turns) = requests s \<and>
     invoked (concat turns) = concat (map handler_call (requests s)) \<and>
     ovn_nbdb_api s1 = foldl (execute env) (Some nb) (requests s) \<and>
     ovn_nbdb s1 = Some True \<and> requests s1 = [] \<and> helper_thread s1 = Exited \<and>
     shutdown env s =
       (s1\<lparr>ovn_nbdb := Some False, trace := trace s1 @ [Stopped], ovn_nbdb_api := None\<rparr>,
        None)"
proof -
  let ?x = "PDict [(''type'', PStr REQ_TYPE_EXIT)]"
  let ?s0 = "add_request ?x s"
  let ?s1 = "request_handler env ?s0"
  have 1: "helper_thread ?s0 = Running" using assms(1) by (simp add: add_request_def)
  have 2: "requests ?s0 = requests s @ ?x # []" by (simp add: add_request_def)
  have 4: "py_getitem ?x ''type'' = Inr (PStr REQ_TYPE_EXIT)" by simp
  from request_handler_exit [OF 1 2 assms(2) 4, of env] obtain s' where
    a: "served env ?s0 (requests s) s'"
    and b: "?s1 = s'\<lparr>requests := [], trace := trace s' @ [Dequeued ?x], helper_thread := Exited\<rparr>"
    and c: "ovn_nbdb s' = ovn_nbdb ?s0" by blast
  from a obtain turns where
    t: "trace s' = trace s @ concat turns" "list_all2 turn (requests s) turns"
      "ovn_nbdb_api s' = foldl (execute env) (Some nb) (requests s)"
    using assms(4) by (auto simp: served_def add_request_def)
  have tr: "trace ?s1 = trace s @ concat turns @ [Dequeued ?x]"
    and api: "ovn_nbdb_api ?s1 = foldl (execute env) (Some nb) (requests s)"
    and conn: "ovn_nbdb ?s1 = Some True"
    and q: "requests ?s1 = []" and th: "helper_thread ?s1 = Exited"
  proof -
    have c': "ovn_nbdb s' = Some True"
      using c assms(3) by (simp add: add_request_def)
    show "trace ?s1 = trace s @ concat turns @ [Dequeued ?x]"
      by (simp add: b t(1))
    show "ovn_nbdb_api ?s1 = foldl (execute env) (Some nb) (requests s)"
      by (simp add: b t(3))
    show "ovn_nbdb ?s1 = Some True" by (simp add: b c')
    show "requests ?s1 = []" by (simp add: b)
    show "helper_thread ?s1 = Exited" by (simp add: b)
  qed
  have "ovn_nbdb_api ?s1 \<noteq> None"
    using assms(4) by (simp add: request_handler_api add_request_def)
  then obtain nb' where some: "ovn_nbdb_api ?s1 = Some nb'" by auto
  have sd: "shutdown env s =
      (?s1\<lparr>ovn_nbdb := Some False, trace := trace ?s1 @ [Stopped], ovn_nbdb_api := None\<rparr>, None)"
    by (simp add: shutdown_def Let_def conn some)
  from tr t(2) turns_trace [OF t(2)] api conn q th sd show ?thesis by blast
qed

theorem shutdown_drains_queue_witness:
  "\<exists>s1 turns.
     request_handler example_env
       (add_request (PDict [(''type'', PStr ''exit'')]) example_busy_helper) = s1 \<and>
     trace s1 = concat turns @ [Dequeued (PDict [(''type'', PStr ''exit'')])] \<and>
     list_all2 turn [example_create_request, example_add_request] turns \<and>
     serial (concat turns) \<and>
     dequeued (concat turns) = [example_create_request, example_add_request] \<and>
     invoked (concat turns) = [(''create_router_assoc'', example_create_info),
                               (''add_router_interface'', example_add_info)] \<and>
     ovn_nbdb_api s1 = Some example_final_nb \<and>
     ovn_nbdb s1 = Some True \<and> requests s1 = [] \<and> helper_thread s1 = Exited \<and>
     shutdown example_env example_busy_helper =
       (s1\<lparr>ovn_nbdb := Some False, trace := trace s1 @ [Stopped], ovn_nbdb_api := None\<rparr>,
        None)"
proof -
  have 1: "helper_thread example_busy_helper = Running"
    and 2: "\<forall>r\<in>set (requests example_busy_helper). command_request r"
    and 3: "ovn_nbdb example_busy_helper = Some True"
    and 4: "ovn_nbdb_api example_busy_helper = Some example_nb"
    and 5: "trace example_busy_helper = []"
    and 6: "requests example_busy_helper = [example_create_request, example_add_request]"
    by (simp_all add: example_busy_helper_def example_helper_fields example_requests_are_commands)
  have 7: "foldl (execute example_env) (Some example_nb)
      [example_create_request, example_add_request] = Some example_final_nb"
    by (simp add: example_executes)
  have 8: "concat (map handler_call [example_create_request, example_add_request])
        = [(''create_router_assoc'', example_create_info),
           (''add_router_interface'', example_add_info)]"
    by (simp add: example_handler_calls)
  from shutdown_drains_queue [OF 1 2 3 4, of example_env]
  show ?thesis
    unfolding 5 6 7 8 REQ_TYPE_EXIT_def by (simp only: append_Nil)
qed

text \<open>
  C9. A request whose type can be hashed and is neither the exit sentinel nor one of the
  three registered types is taken from the queue and dropped: no handler is called,
  nothing is logged, nothing but the queue and the trace changes, and the loop goes on
  with the next request.
\<close>

theorem unknown_request_type_is_discarded:
  assumes "helper_thread s = Running"
    and "requests s = r # rest"
    and "py_getitem r ''type'' = Inr t"
    and "hashable t"
    and "t \<noteq> PStr REQ_TYPE_EXIT"
    and "t \<noteq> PStr REQ_TYPE_CREATE_ROUTER_ASSOC"
    and "t \<noteq> PStr REQ_TYPE_DELETE_ROUTER_ASSOC"
    and "t \<noteq> PStr REQ_TYPE_ADD_ROUTER_INTERFACE"
  shows "loop_body env s = s\<lparr>requests := rest, trace := trace s @ [Dequeued r, TaskDone]\<rparr> \<and>
     request_handler env s =
       request_handler env (s\<lparr>requests := rest, trace := trace s @ [Dequeued r, TaskDone]\<rparr>)"
proof -
  have none: "func_maps_get t = Inr None"
    using assms(4-8) by (cases t) (auto simp: bgpvpn_request_func_maps_def)
  have body: "loop_body env s = s\<lparr>requests := rest, trace := trace s @ [Dequeued r, TaskDone]\<rparr>"
    using assms(2,3,5) none by (simp add: loop_body_def try_body_def Let_def)
  have "request_handler env s = request_handler env (loop_body env s)"
    using assms(1,2) by (simp add: request_handler.simps [of env s])
  with body show ?thesis by simp
qed

theorem unknown_request_type_is_discarded_witness:
  "loop_body example_env example_unknown_helper =
     example_unknown_helper\<lparr>requests := [example_add_request],
       trace := [Dequeued example_unknown_request, TaskDone]\<rparr> \<and>
   request_handler example_env example_unknown_helper =
     request_handler example_env
       (example_unknown_helper\<lparr>requests := [example_add_request],
          trace := [Dequeued example_unknown_request, TaskDone]\<rparr>)"
proof -
  have 1: "helper_thread example_unknown_helper = Running"
    and 2: "requests example_unknown_helper = example_unknown_request # [example_add_request]"
    and 5: "trace example_unknown_helper = []"
    by (simp_all add: example_unknown_helper_def example_helper_fields)
  have 3: "py_getitem example_unknown_request ''type'' = Inr (PStr ''remove_router_interface'')"
    by (simp add: example_unknown_request_def)
  have 4: "hashable (PStr ''remove_router_interface'')"
    "PStr ''remove_router_interface'' \<noteq> PStr REQ_TYPE_EXIT"
    "PStr ''remove_router_interface'' \<noteq> PStr REQ_TYPE_CREATE_ROUTER_ASSOC"
    "PStr ''remove_router_interface'' \<noteq> PStr REQ_TYPE_DELETE_ROUTER_ASSOC"
    "PStr ''remove_router_interface'' \<noteq> PStr REQ_TYPE_ADD_ROUTER_INTERFACE"
    by (simp_all add: REQ_TYPE_EXIT_def REQ_TYPE_CREATE_ROUTER_ASSOC_def
        REQ_TYPE_DELETE_ROUTER_ASSOC_def REQ_TYPE_ADD_ROUTER_INTERFACE_def)
  from unknown_request_type_is_discarded [OF 1 2 3 4, of example_env]
  show ?thesis
    unfolding 5 by simp
qed

section \<open>The driver\<close>

lemma py_get_dict: "py_get (PDict d) k = Inr (attribute d k)"
  by (simp add: attribute_def split: option.splits)

lemma common_precommit_checks_dict:
  "common_precommit_checks (PDict d) =
     (if truthy (attribute d ''route_distinguishers'') then Inl (BGPVPNRDNotSupported ''ovn'')
      else if truthy (attribute d ''route_targets'') then Inl (BGPVPNRTNotSupported ''ovn'')
      else if truthy (attribute d ''import_targets'') then Inl (BGPVPNITNotSupported ''ovn'')
      else if truthy (attribute d ''export_targets'') then Inl (BGPVPNETNotSupported ''ovn'')
      else if truthy (attribute d ''local_pref'') then Inl (BGPVPNLocalPrefNotSupported ''ovn'')
      else if attribute d ''type'' \<noteq> PStr ''l3''
        then Inl (BGPVPNTypeNotSupported ''ovn'' (attribute d ''type''))
      else Inr ())"
  by (simp add: common_precommit_checks_def and_then_def py_get_dict OVN_DRIVER_NAME_def
      OVN_SUPPORTED_BGPVPN_TYPES_def del: py_get.simps)

lemma common_precommit_checks_raises_iff:
  "(\<exists>e. common_precommit_checks (PDict d) = Inl e) =
     (list_ex (\<lambda>k. truthy (attribute d k)) unsupported_attributes
      \<or> attribute d ''type'' \<noteq> PStr ''l3'')"
  by (auto simp: common_precommit_checks_dict unsupported_attributes_def)

lemma truthy_non_empty:
  assumes "\<forall>i. v \<noteq> PInt i" "\<forall>b. v \<noteq> PBool b"
  shows "truthy v = (v \<noteq> PNone \<and> v \<noteq> PStr [] \<and> v \<noteq> PList [] \<and> v \<noteq> PDict [])"
  using assms by (cases v) auto

lemma common_precommit_checks_unit_tests:
  "common_precommit_checks (PDict [(''name'', PStr ''bgpvpn1''), (''type'', PStr ''l3'')]) = Inr ()"
  "common_precommit_checks (PDict [(''name'', PStr ''bgpvpn1''), (''type'', PStr ''l2'')])
     = Inl (BGPVPNTypeNotSupported ''ovn'' (PStr ''l2''))"
  "common_precommit_checks
     (PDict [(''type'', PStr ''l3''), (''route_distinguishers'', PList [PStr ''4444:55''])])
     = Inl (BGPVPNRDNotSupported ''ovn'')"
  "common_precommit_checks
     (PDict [(''type'', PStr ''l3''), (''route_targets'', PList [PStr ''4444:55''])])
     = Inl (BGPVPNRTNotSupported ''ovn'')"
  "common_precommit_checks
     (PDict [(''type'', PStr ''l3''), (''import_targets'', PList [PStr ''4444:55''])])
     = Inl (BGPVPNITNotSupported ''ovn'')"
  "common_precommit_checks
     (PDict [(''type'', PStr ''l3''), (''export_targets'', PList [PStr ''4444:55''])])
     = Inl (BGPVPNETNotSupported ''ovn'')"
  "common_precommit_checks (PDict [(''type'', PStr ''l3''), (''local_pref'', PInt 100)])
     = Inl (BGPVPNLocalPrefNotSupported ''ovn'')"
  by (simp_all add: common_precommit_checks_dict attribute_def)

text \<open>
  C6. For every BGPVPN record, \<^verbatim>\<open>_common_precommit_checks\<close> raises if and only if one of
  \<^verbatim>\<open>route_distinguishers\<close>, \<^verbatim>\<open>route_targets\<close>, \<^verbatim>\<open>import_targets\<close>, \<^verbatim>\<open>export_targets\<close> and
  \<^verbatim>\<open>local_pref\<close> is set to a non-empty value, that is, one that \<^verbatim>\<open>if bgpvpn.get(k, None):\<close>
  takes for true, or the type is not \<^verbatim>\<open>l3\<close>. The error is the one of the first offending
  attribute in the order of the checks, the type last. A record with none of the five
  attributes set and type \<^verbatim>\<open>l3\<close> is accepted. \<^verbatim>\<open>create_bgpvpn_precommit\<close> and
  \<^verbatim>\<open>update_bgpvpn_precommit\<close> do nothing but this check: on a rejection only the error
  comes back, on acceptance the driver is as it was, its helper's queue included.
\<close>

theorem common_precommit_checks_rejects_iff:
  "((\<exists>e. common_precommit_checks (PDict d) = Inl e) =
      (list_ex (\<lambda>k. truthy (attribute d k)) unsupported_attributes
       \<or> attribute d ''type'' \<noteq> PStr ''l3'')) \<and>
   common_precommit_checks (PDict d) =
     (if truthy (attribute d ''route_distinguishers'')
        then Inl (BGPVPNRDNotSupported OVN_DRIVER_NAME)
      else if truthy (attribute d ''route_targets'')
        then Inl (BGPVPNRTNotSupported OVN_DRIVER_NAME)
      else if truthy (attribute d ''import_targets'')
        then Inl (BGPVPNITNotSupported OVN_DRIVER_NAME)
      else if truthy (attribute d ''export_targets'')
        then Inl (BGPVPNETNotSupported OVN_DRIVER_NAME)
      else if truthy (attribute d ''local_pref'')
        then Inl (BGPVPNLocalPrefNotSupported OVN_DRIVER_NAME)
      else if attribute d ''type'' \<noteq> PStr ''l3''
        then Inl (BGPVPNTypeNotSupported OVN_DRIVER_NAME (attribute d ''type''))
      else Inr ()) \<and>
   (list_all (\<lambda>k. attribute d k = PNone) unsupported_attributes \<and>
    attribute d ''type'' = PStr ''l3'' \<longrightarrow> common_precommit_checks (PDict d) = Inr ()) \<and>
   create_bgpvpn_precommit drv context (PDict d) =
     (case common_precommit_checks (PDict d) of Inl e \<Rightarrow> Inl e | Inr u \<Rightarrow> Inr drv) \<and>
   update_bgpvpn_precommit drv context old_bgpvpn (PDict d) =
     (case common_precommit_checks (PDict d) of Inl e \<Rightarrow> Inl e | Inr u \<Rightarrow> Inr drv)"
proof -
  have "list_all (\<lambda>k. attribute d k = PNone) unsupported_attributes \<and>
      attribute d ''type'' = PStr ''l3'' \<longrightarrow> common_precommit_checks (PDict d) = Inr ()"
    by (simp add: common_precommit_checks_dict unsupported_attributes_def)
  moreover have "create_bgpvpn_precommit drv context (PDict d) =
      (case common_precommit_checks (PDict d) of Inl e \<Rightarrow> Inl e | Inr u \<Rightarrow> Inr drv)"
    "update_bgpvpn_precommit drv context old_bgpvpn (PDict d) =
      (case common_precommit_checks (PDict d) of Inl e \<Rightarrow> Inl e | Inr u \<Rightarrow> Inr drv)"
    by (simp_all add: create_bgpvpn_precommit_def update_bgpvpn_precommit_def and_then_def)
  ultimately show ?thesis
    using common_precommit_checks_raises_iff [of d] common_precommit_checks_dict [of d]
    by (simp only: OVN_DRIVER_NAME_def simp_thms)
qed

theorem common_precommit_checks_rejects_iff_witness:
  "common_precommit_checks (PDict [(''name'', PStr ''bgpvpn1''), (''type'', PStr ''l3'')])
     = Inr () \<and>
   create_bgpvpn_precommit example_driver (PStr ''admin'')
     (PDict [(''name'', PStr ''bgpvpn1''), (''type'', PStr ''l3'')]) = Inr example_driver \<and>
   common_precommit_checks
     (PDict [(''type'', PStr ''l3''), (''route_targets'', PList [PStr ''4444:55''])])
     = Inl (BGPVPNRTNotSupported ''ovn'') \<and>
   update_bgpvpn_precommit example_driver (PStr ''admin'')
     (PDict [(''name'', PStr ''bgpvpn1''), (''type'', PStr ''l3'')])
     (PDict [(''type'', PStr ''l3''), (''route_targets'', PList [PStr ''4444:55''])])
     = Inl (BGPVPNRTNotSupported ''ovn'') \<and>
   common_precommit_checks (PDict [(''name'', PStr ''bgpvpn1''), (''type'', PStr ''l2'')])
     = Inl (BGPVPNTypeNotSupported ''ovn'' (PStr ''l2''))"
proof -
  note accepted = common_precommit_checks_rejects_iff
    [of "[(''name'', PStr ''bgpvpn1''), (''type'', PStr ''l3'')]" example_driver "PStr ''admin''"]
  note rejected = common_precommit_checks_rejects_iff
    [of "[(''type'', PStr ''l3''), (''route_targets'', PList [PStr ''4444:55''])]"
        example_driver "PStr ''admin''" "PDict [(''name'', PStr ''bgpvpn1''), (''type'', PStr ''l3'')]"]
  note l2 = common_precommit_checks_rejects_iff
    [of "[(''name'', PStr ''bgpvpn1''), (''type'', PStr ''l2'')]"]
  from accepted have a:
    "common_precommit_checks (PDict [(''name'', PStr ''bgpvpn1''), (''type'', PStr ''l3'')])
       = Inr ()"
    by (simp add: attribute_def unsupported_attributes_def)
  from accepted a have b:
    "create_bgpvpn_precommit example_driver (PStr ''admin'')
       (PDict [(''name'', PStr ''bgpvpn1''), (''type'', PStr ''l3'')]) = Inr example_driver"
    by simp
  from rejected have c:
    "common_precommit_checks
       (PDict [(''type'', PStr ''l3''), (''route_targets'', PList [PStr ''4444:55''])])
       = Inl (BGPVPNRTNotSupported ''ovn'')"
    by (simp add: attribute_def OVN_DRIVER_NAME_def)
  from rejected c have d:
    "update_bgpvpn_precommit example_driver (PStr ''admin'')
       (PDict [(''name'', PStr ''bgpvpn1''), (''type'', PStr ''l3'')])
       (PDict [(''type'', PStr ''l3''), (''route_targets'', PList [PStr ''4444:55''])])
       = Inl (BGPVPNRTNotSupported ''ovn'')"
    by simp
  from l2 have e:
    "common_precommit_checks (PDict [(''name'', PStr ''bgpvpn1''), (''type'', PStr ''l2'')])
       = Inl (BGPVPNTypeNotSupported ''ovn'' (PStr ''l2''))"
    by (simp add: attribute_def OVN_DRIVER_NAME_def)
  from a b c d e show ?thesis by (simp only: simp_thms)
qed

text \<open>
  C8. \<^verbatim>\<open>registry_router_interface_created\<close>: when the lookup of the router's BGPVPNs
  returns the empty list the callback returns with the helper, its queue and the store
  behind it, unchanged; when the lookup returns at least one BGPVPN and the payload carries
  the port, exactly one request is appended to the queue, of type
  \<^verbatim>\<open>add_router_interface\<close>, with the id of the new port and the first BGPVPN of the lookup.
\<close>

theorem router_interface_created_enqueues:
  "(get_bgpvpns env (payload_context p) (PDict [(''routers'', PList [resource_id p])]) = Inr []
      \<longrightarrow> (\<exists>d'. registry_router_interface_created env d (Some p) = Inr d' \<and>
                 ovn_helper d' = ovn_helper d)) \<and>
   (get_bgpvpns env (payload_context p) (PDict [(''routers'', PList [resource_id p])])
        = Inr (bgpvpn # others) \<and>
    py_get (metadata p) ''port'' = Inr port \<and> py_get port ''id'' = Inr port_id
      \<longrightarrow> registry_router_interface_created env d (Some p) =
            Inr (d\<lparr>ovn_helper := (ovn_helper d)\<lparr>requests := requests (ovn_helper d) @
              [PDict [(''type'', PStr REQ_TYPE_ADD_ROUTER_INTERFACE),
                      (''info'', PDict [(''port_id'', port_id), (''bgpvpn'', bgpvpn)])]]\<rparr>\<rparr>))"
proof (intro conjI impI)
  assume none: "get_bgpvpns env (payload_context p) (PDict [(''routers'', PList [resource_id p])])
    = Inr []"
  show "\<exists>d'. registry_router_interface_created env d (Some p) = Inr d' \<and>
                 ovn_helper d' = ovn_helper d"
    by (simp add: registry_router_interface_created_def router_interface_created_body_def
        and_then_def none split: sum.splits)
next
  assume "get_bgpvpns env (payload_context p) (PDict [(''routers'', PList [resource_id p])])
        = Inr (bgpvpn # others) \<and>
    py_get (metadata p) ''port'' = Inr port \<and> py_get port ''id'' = Inr port_id"
  then show "registry_router_interface_created env d (Some p) =
            Inr (d\<lparr>ovn_helper := (ovn_helper d)\<lparr>requests := requests (ovn_helper d) @
              [PDict [(''type'', PStr REQ_TYPE_ADD_ROUTER_INTERFACE),
                      (''info'', PDict [(''port_id'', port_id), (''bgpvpn'', bgpvpn)])]]\<rparr>\<rparr>)"
    by (simp add: registry_router_interface_created_def router_interface_created_body_def
        and_then_def add_request_def)
qed

theorem router_interface_created_enqueues_witness:
  "(\<exists>d'. registry_router_interface_created example_env example_driver
            (Some example_payload_no_bgpvpn) = Inr d' \<and>
         ovn_helper d' = ovn_helper example_driver) \<and>
   registry_router_interface_created example_env example_driver (Some example_payload) =
     Inr (example_driver\<lparr>ovn_helper := (ovn_helper example_driver)\<lparr>requests :=
       requests (ovn_helper example_driver) @
         [PDict [(''type'', PStr REQ_TYPE_ADD_ROUTER_INTERFACE),
                 (''info'', PDict [(''port_id'', PStr ''port-c''),
                                   (''bgpvpn'', example_bgpvpn)])]]\<rparr>\<rparr>)"
proof -
  have 1: "get_bgpvpns example_env (payload_context example_payload_no_bgpvpn)
      (PDict [(''routers'', PList [resource_id example_payload_no_bgpvpn])]) = Inr []"
    by (simp add: example_env_def example_payload_no_bgpvpn_def)
  have 2: "get_bgpvpns example_env (payload_context example_payload)
      (PDict [(''routers'', PList [resource_id example_payload])])
        = Inr (example_bgpvpn # [example_bgpvpn_no_vni])"
    and 3: "py_get (metadata example_payload) ''port'' = Inr (PDict [(''id'', PStr ''port-c'')])"
    and 4: "py_get (PDict [(''id'', PStr ''port-c'')]) ''id'' = Inr (PStr ''port-c'')"
    by (simp_all add: example_env_def example_payload_def)
  note f1 = router_interface_created_enqueues
    [of example_env example_payload_no_bgpvpn example_driver]
  from f1 [THEN conjunct1, rule_format, OF 1]
  have a: "\<exists>d'. registry_router_interface_created example_env example_driver
            (Some example_payload_no_bgpvpn) = Inr d' \<and>
         ovn_helper d' = ovn_helper example_driver" .
  note f2 = router_interface_created_enqueues
    [of example_env example_payload _ example_bgpvpn "[example_bgpvpn_no_vni]"
        "PDict [(''id'', PStr ''port-c'')]" "PStr ''port-c''"]
  from f2 [THEN conjunct2, rule_format, OF conjI [OF 2 conjI [OF 3 4]]]
  have b: "registry_router_interface_created example_env example_driver (Some example_payload) =
     Inr (example_driver\<lparr>ovn_helper := (ovn_helper example_driver)\<lparr>requests :=
       requests (ovn_helper example_driver) @
         [PDict [(''type'', PStr REQ_TYPE_ADD_ROUTER_INTERFACE),
                 (''info'', PDict [(''port_id'', PStr ''port-c''),
                                   (''bgpvpn'', example_bgpvpn)])]]\<rparr>\<rparr>)" .
  from a b show ?thesis by (rule conjI)
qed

end
